theory Spec2Isabelle
  imports Complex_Main "HOL-Library.AList"
begin

section \<open>Object model\<close>

text \<open>
  The values of a document, as the validator of \<open>validateXObject.go\<close> sees them.
  Go's \<open>nil\<close> object (the null object) is \<open>PDFNil\<close>. A dictionary is Go's
  \<open>map[string]PDFObject\<close>, written as an association list that is read through
  \<open>map_of\<close>; a stream dictionary carries its header dictionary and the names of its
  filter pipeline.
\<close>

datatype PDFObject =
    PDFNil
  | PDFBoolean bool
  | PDFInteger int
  | PDFFloat real
  | PDFName string
  | PDFStringLiteral string
  | PDFHexLiteral string
  | PDFArray "PDFObject list"
  | PDFDict "(string \<times> PDFObject) list"
  | PDFStreamDict "(string \<times> PDFObject) list" "string list"
  | PDFIndirectRef nat nat

type_synonym PDFDict = "(string \<times> PDFObject) list"

text \<open>A stream dictionary value: the header dictionary and the filter pipeline.\<close>

type_synonym StreamDict = "PDFDict \<times> string list"

text \<open>
  The error kinds of the specification. The source builds its errors from message
  strings; each error site of the source is given the kind the specification names for
  it, with the source's message quoted beside it.
\<close>

datatype error =
    MissingRequiredEntry
  | TypeMismatch
  | ConstraintViolation
  | VersionViolation
  | ConflictingEntries
  | MissingDependentEntry
  | UnknownSubtype
  | UnsupportedConstruct
  | BrokenReference
  | RecursionLimitExceeded
  | SchemaViolation
  | Cancelled

datatype ValidationMode = ValidationStrict | ValidationRelaxed

text \<open>The format's revisions, an ordered enumeration counted from 1.0.\<close>

type_synonym PDFVersion = nat

definition V10 :: PDFVersion where "V10 = 0"
definition V11 :: PDFVersion where "V11 = 1"
definition V12 :: PDFVersion where "V12 = 2"
definition V13 :: PDFVersion where "V13 = 3"
definition V14 :: PDFVersion where "V14 = 4"
definition V15 :: PDFVersion where "V15 = 5"
definition V16 :: PDFVersion where "V16 = 6"
definition V17 :: PDFVersion where "V17 = 7"

definition REQUIRED :: bool where "REQUIRED = True"
definition OPTIONAL :: bool where "OPTIONAL = False"

definition ExcludePatternCS :: bool where "ExcludePatternCS = True"
definition IncludePatternCS :: bool where "IncludePatternCS = False"
definition isAlternateImageStreamDict :: bool where "isAlternateImageStreamDict = True"
definition isNoAlternateImageStreamDict :: bool where "isNoAlternateImageStreamDict = False"

text \<open>
  The context every validator receives where the source passes \<open>xRefTable\<close>: the
  cross-reference context (\<open>dereference\<close>, \<open>Version\<close>, \<open>ValidationMode\<close>) and,
  as parameters, the validators of this package that the source file calls and that are
  defined in other files: optional content, piece info, resource dictionaries and the
  page group entry, each given the arguments the source passes after \<open>xRefTable\<close>,
  and the checks of a resolved value as a file specification (\<open>fileSpecKind\<close>), as a
  color space, with the flag that excludes pattern color spaces (\<open>colorSpaceKind\<close>),
  as a metadata stream (\<open>metadataStream\<close>) and as a date string (\<open>isDate\<close>). Each
  of them is an arbitrary function here.
\<close>

record env =
  dereference :: "nat \<Rightarrow> nat \<Rightarrow> error + PDFObject"
  Version :: PDFVersion
  ValidationMode :: ValidationMode
  fileSpecKind :: "PDFObject \<Rightarrow> error + unit"
  colorSpaceKind :: "bool \<Rightarrow> PDFObject \<Rightarrow> error + unit"
  metadataStream :: "StreamDict \<Rightarrow> error + unit"
  validateOptionalContentGroupDict :: "PDFDict \<Rightarrow> PDFVersion \<Rightarrow> error + unit"
  validateOptionalContent :: "PDFDict \<Rightarrow> string \<Rightarrow> string \<Rightarrow> bool \<Rightarrow> PDFVersion \<Rightarrow> error + unit"
  validatePieceInfo :: "PDFDict \<Rightarrow> string \<Rightarrow> string \<Rightarrow> bool \<Rightarrow> PDFVersion \<Rightarrow> error + bool"
  validateResourceDict :: "PDFObject \<Rightarrow> error + bool"
  validatePageEntryGroup :: "PDFDict \<Rightarrow> bool \<Rightarrow> PDFVersion \<Rightarrow> error + unit"
  isDate :: "string \<Rightarrow> bool"

section \<open>Dictionary access and the dereferencer\<close>

text \<open>\<open>dict.Find(key)\<close>: the value stored under a key, if any.\<close>

definition Find :: "PDFDict \<Rightarrow> string \<Rightarrow> PDFObject option" where
  "Find d k = map_of d k"

text \<open>\<open>dict.Len()\<close>: the number of keys of the map.\<close>

definition Len :: "PDFDict \<Rightarrow> nat" where
  "Len d = length (remdups (map fst d))"

text \<open>
  The entries a \<open>range\<close> loop over the map visits: one per key, with the value
  \<open>Find\<close> gives for it.
\<close>

definition entries :: "PDFDict \<Rightarrow> (string \<times> PDFObject) list" where
  "entries d = map (\<lambda>k. (k, case map_of d k of Some v \<Rightarrow> v | None \<Rightarrow> PDFNil)) (remdups (map fst d))"

text \<open>
  Modelled from the spec: the methods \<open>Type()\<close> and \<open>Subtype()\<close> of a dictionary,
  which are not in the source file. The conventional keys "Type" and "Subtype" hold
  a name token; the method gives that name, and nothing when the key is absent or holds
  another kind of value.
\<close>

definition NameEntry :: "PDFDict \<Rightarrow> string \<Rightarrow> string option" where
  "NameEntry d k = (case Find d k of Some (PDFName s) \<Rightarrow> Some s | _ \<Rightarrow> None)"

definition Type :: "PDFDict \<Rightarrow> string option" where
  "Type d = NameEntry d ''Type''"

definition Subtype :: "PDFDict \<Rightarrow> string option" where
  "Subtype d = NameEntry d ''Subtype''"

text \<open>
  Modelled from the spec: the query \<open>HasSoleFilterNamed\<close> of a stream dictionary and
  the filter names \<open>filter.JPX\<close> and \<open>filter.CCITTFax\<close>, which are not in the
  source file. The filter chain is exposed as a read-only query \<open>soleFilterIs(name)\<close>:
  the pipeline consists of exactly that one filter.
\<close>

definition JPX :: string where "JPX = ''JPXDecode''"
definition CCITTFax :: string where "CCITTFax = ''CCITTFaxDecode''"

definition HasSoleFilterNamed :: "StreamDict \<Rightarrow> string \<Rightarrow> bool" where
  "HasSoleFilterNamed sd n = (snd sd = [n])"

text \<open>
  Modelled from the spec: \<open>xRefTable.Dereference\<close>, which is not in the source file.
  \<open>resolve(Value)\<close>: a value that is not an indirect reference is returned unchanged;
  an indirect reference is looked up in the cross-reference context, which gives the
  target, the null object for a legitimately absent target, or fails.
\<close>

definition Dereference :: "env \<Rightarrow> PDFObject \<Rightarrow> error + PDFObject" where
  "Dereference x obj =
     (case obj of PDFIndirectRef n g \<Rightarrow> dereference x n g | _ \<Rightarrow> Inr obj)"

text \<open>
  Modelled from the spec: \<open>xRefTable.DereferenceDict\<close>, which is not in the source
  file: resolve, give nothing (and no error) for the null object, the dictionary for a
  dictionary, and fail with \<open>TypeMismatch\<close> for any other kind.
\<close>

definition DereferenceDict :: "env \<Rightarrow> PDFObject \<Rightarrow> error + PDFDict option" where
  "DereferenceDict x obj =
     (case Dereference x obj of
        Inl e \<Rightarrow> Inl e
      | Inr v \<Rightarrow> (case v of PDFNil \<Rightarrow> Inr None | PDFDict d \<Rightarrow> Inr (Some d) | _ \<Rightarrow> Inl TypeMismatch))"

text \<open>
  Modelled from the spec: \<open>xRefTable.DereferenceStreamDict\<close> and the package's
  \<open>validateStreamDict\<close>, which are not in the source file: the same for stream
  dictionaries.
\<close>

definition DereferenceStreamDict :: "env \<Rightarrow> PDFObject \<Rightarrow> error + StreamDict option" where
  "DereferenceStreamDict x obj =
     (case Dereference x obj of
        Inl e \<Rightarrow> Inl e
      | Inr v \<Rightarrow> (case v of PDFNil \<Rightarrow> Inr None | PDFStreamDict d f \<Rightarrow> Inr (Some (d, f))
                   | _ \<Rightarrow> Inl TypeMismatch))"

definition validateStreamDict :: "env \<Rightarrow> PDFObject \<Rightarrow> error + StreamDict option" where
  "validateStreamDict x obj = DereferenceStreamDict x obj"

section \<open>Version and mode policy\<close>

text \<open>
  Modelled from the spec: the version and mode policy, which is not in the source file.
  A present entry whose minimum version exceeds the document's version is a
  \<open>VersionViolation\<close> in strict mode and is tolerated in relaxed mode; an absent entry
  of a future version is not checked for requiredness.
\<close>

definition versionViolated :: "env \<Rightarrow> PDFVersion \<Rightarrow> bool" where
  "versionViolated x sinceVersion =
     (ValidationMode x = ValidationStrict \<and> Version x < sinceVersion)"

definition absentEntry :: "env \<Rightarrow> bool \<Rightarrow> PDFVersion \<Rightarrow> error + 'a option" where
  "absentEntry x required sinceVersion =
     (if required \<and> sinceVersion \<le> Version x then Inl MissingRequiredEntry else Inr None)"

section \<open>Entry validator primitives\<close>

text \<open>Sequencing of two checks: the first failure is returned unchanged.\<close>

definition andThen :: "error + 'a \<Rightarrow> error + 'b \<Rightarrow> error + 'b" where
  "andThen m k = (case m of Inl e \<Rightarrow> Inl e | Inr _ \<Rightarrow> k)"

text \<open>
  Modelled from the spec: the entry validators \<open>validateEntry\<close>,
  \<open>validateIntegerEntry\<close>, \<open>validateBooleanEntry\<close>, \<open>validateNameEntry\<close>,
  \<open>validateNumberEntry\<close>, \<open>validateStringEntry\<close>, \<open>validateDateEntry\<close>,
  \<open>validateArrayEntry\<close> and its element-wise variants, \<open>validateRectangleEntry\<close>,
  \<open>validateDictEntry\<close> and \<open>validateStreamDictEntry\<close>, none of which is in the
  source file. Their common contract: look the key up; an absent key fails with
  \<open>MissingRequiredEntry\<close> when required and is "absent" otherwise; a present value
  is resolved, a null target fails with \<open>BrokenReference\<close> when required and is
  "absent" otherwise; then the runtime kind is checked (\<open>TypeMismatch\<close>), then the
  predicate (\<open>ConstraintViolation\<close>), then the version (\<open>VersionViolation\<close>), and
  the decoded value is returned. \<open>kind\<close> decodes a resolved value of the expected
  kind; a predicate the source passes as \<open>nil\<close> is \<open>\<lambda>_. True\<close>.
\<close>

definition validateKindEntry ::
  "env \<Rightarrow> PDFDict \<Rightarrow> string \<Rightarrow> string \<Rightarrow> bool \<Rightarrow> PDFVersion
     \<Rightarrow> (PDFObject \<Rightarrow> error + 'a) \<Rightarrow> ('a \<Rightarrow> bool) \<Rightarrow> error + 'a option" where
  "validateKindEntry x dict dictName entryName required sinceVersion kind validate =
     (case Find dict entryName of
        None \<Rightarrow> absentEntry x required sinceVersion
      | Some obj \<Rightarrow>
          (case Dereference x obj of
             Inl e \<Rightarrow> Inl e
           | Inr v \<Rightarrow>
               if v = PDFNil then (if required then Inl BrokenReference else Inr None)
               else (case kind v of
                       Inl e \<Rightarrow> Inl e
                     | Inr a \<Rightarrow>
                         if \<not> validate a then Inl ConstraintViolation
                         else if versionViolated x sinceVersion then Inl VersionViolation
                         else Inr (Some a))))"

definition anyKind :: "PDFObject \<Rightarrow> error + PDFObject" where
  "anyKind v = Inr v"

definition integerKind :: "PDFObject \<Rightarrow> error + int" where
  "integerKind v = (case v of PDFInteger i \<Rightarrow> Inr i | _ \<Rightarrow> Inl TypeMismatch)"

definition booleanKind :: "PDFObject \<Rightarrow> error + bool" where
  "booleanKind v = (case v of PDFBoolean b \<Rightarrow> Inr b | _ \<Rightarrow> Inl TypeMismatch)"

definition nameKind :: "PDFObject \<Rightarrow> error + string" where
  "nameKind v = (case v of PDFName s \<Rightarrow> Inr s | _ \<Rightarrow> Inl TypeMismatch)"

definition numberKind :: "PDFObject \<Rightarrow> error + real" where
  "numberKind v =
     (case v of PDFInteger i \<Rightarrow> Inr (of_int i) | PDFFloat f \<Rightarrow> Inr f | _ \<Rightarrow> Inl TypeMismatch)"

definition stringKind :: "PDFObject \<Rightarrow> error + string" where
  "stringKind v =
     (case v of PDFStringLiteral s \<Rightarrow> Inr s | PDFHexLiteral s \<Rightarrow> Inr s | _ \<Rightarrow> Inl TypeMismatch)"

definition arrayKind :: "PDFObject \<Rightarrow> error + PDFObject list" where
  "arrayKind v = (case v of PDFArray a \<Rightarrow> Inr a | _ \<Rightarrow> Inl TypeMismatch)"

definition dictKind :: "PDFObject \<Rightarrow> error + PDFDict" where
  "dictKind v = (case v of PDFDict d \<Rightarrow> Inr d | _ \<Rightarrow> Inl TypeMismatch)"

definition streamDictKind :: "PDFObject \<Rightarrow> error + StreamDict" where
  "streamDictKind v = (case v of PDFStreamDict d f \<Rightarrow> Inr (d, f) | _ \<Rightarrow> Inl TypeMismatch)"

text \<open>Every element of an array, resolved, is of the expected kind.\<close>

fun elementsOfKind :: "env \<Rightarrow> (PDFObject \<Rightarrow> error + 'a) \<Rightarrow> PDFObject list \<Rightarrow> error + unit" where
  "elementsOfKind x kind [] = Inr ()"
| "elementsOfKind x kind (v # vs) =
     (case Dereference x v of
        Inl e \<Rightarrow> Inl e
      | Inr w \<Rightarrow> (case kind w of Inl e \<Rightarrow> Inl e | Inr _ \<Rightarrow> elementsOfKind x kind vs))"

definition arrayOfKind ::
  "env \<Rightarrow> (PDFObject \<Rightarrow> error + 'a) \<Rightarrow> PDFObject \<Rightarrow> error + PDFObject list" where
  "arrayOfKind x kind v =
     (case arrayKind v of
        Inl e \<Rightarrow> Inl e
      | Inr a \<Rightarrow> (case elementsOfKind x kind a of Inl e \<Rightarrow> Inl e | Inr _ \<Rightarrow> Inr a))"

definition validateEntry ::
  "env \<Rightarrow> PDFDict \<Rightarrow> string \<Rightarrow> string \<Rightarrow> bool \<Rightarrow> PDFVersion \<Rightarrow> error + PDFObject option" where
  "validateEntry x dict dictName entryName required sinceVersion =
     validateKindEntry x dict dictName entryName required sinceVersion anyKind (\<lambda>_. True)"

definition validateIntegerEntry ::
  "env \<Rightarrow> PDFDict \<Rightarrow> string \<Rightarrow> string \<Rightarrow> bool \<Rightarrow> PDFVersion \<Rightarrow> (int \<Rightarrow> bool)
     \<Rightarrow> error + int option" where
  "validateIntegerEntry x dict dictName entryName required sinceVersion validate =
     validateKindEntry x dict dictName entryName required sinceVersion integerKind validate"

definition validateBooleanEntry ::
  "env \<Rightarrow> PDFDict \<Rightarrow> string \<Rightarrow> string \<Rightarrow> bool \<Rightarrow> PDFVersion \<Rightarrow> (bool \<Rightarrow> bool)
     \<Rightarrow> error + bool option" where
  "validateBooleanEntry x dict dictName entryName required sinceVersion validate =
     validateKindEntry x dict dictName entryName required sinceVersion booleanKind validate"

definition validateNameEntry ::
  "env \<Rightarrow> PDFDict \<Rightarrow> string \<Rightarrow> string \<Rightarrow> bool \<Rightarrow> PDFVersion \<Rightarrow> (string \<Rightarrow> bool)
     \<Rightarrow> error + string option" where
  "validateNameEntry x dict dictName entryName required sinceVersion validate =
     validateKindEntry x dict dictName entryName required sinceVersion nameKind validate"

definition validateNumberEntry ::
  "env \<Rightarrow> PDFDict \<Rightarrow> string \<Rightarrow> string \<Rightarrow> bool \<Rightarrow> PDFVersion \<Rightarrow> (real \<Rightarrow> bool)
     \<Rightarrow> error + real option" where
  "validateNumberEntry x dict dictName entryName required sinceVersion validate =
     validateKindEntry x dict dictName entryName required sinceVersion numberKind validate"

definition validateStringEntry ::
  "env \<Rightarrow> PDFDict \<Rightarrow> string \<Rightarrow> string \<Rightarrow> bool \<Rightarrow> PDFVersion \<Rightarrow> (string \<Rightarrow> bool)
     \<Rightarrow> error + string option" where
  "validateStringEntry x dict dictName entryName required sinceVersion validate =
     validateKindEntry x dict dictName entryName required sinceVersion stringKind validate"

definition validateDateEntry ::
  "env \<Rightarrow> PDFDict \<Rightarrow> string \<Rightarrow> string \<Rightarrow> bool \<Rightarrow> PDFVersion \<Rightarrow> error + string option" where
  "validateDateEntry x dict dictName entryName required sinceVersion =
     validateKindEntry x dict dictName entryName required sinceVersion stringKind (isDate x)"

definition validateArrayEntry ::
  "env \<Rightarrow> PDFDict \<Rightarrow> string \<Rightarrow> string \<Rightarrow> bool \<Rightarrow> PDFVersion \<Rightarrow> (PDFObject list \<Rightarrow> bool)
     \<Rightarrow> error + PDFObject list option" where
  "validateArrayEntry x dict dictName entryName required sinceVersion validate =
     validateKindEntry x dict dictName entryName required sinceVersion arrayKind validate"

definition validateIntegerArrayEntry ::
  "env \<Rightarrow> PDFDict \<Rightarrow> string \<Rightarrow> string \<Rightarrow> bool \<Rightarrow> PDFVersion \<Rightarrow> (PDFObject list \<Rightarrow> bool)
     \<Rightarrow> error + PDFObject list option" where
  "validateIntegerArrayEntry x dict dictName entryName required sinceVersion validate =
     validateKindEntry x dict dictName entryName required sinceVersion
       (arrayOfKind x integerKind) validate"

definition validateNumberArrayEntry ::
  "env \<Rightarrow> PDFDict \<Rightarrow> string \<Rightarrow> string \<Rightarrow> bool \<Rightarrow> PDFVersion \<Rightarrow> (PDFObject list \<Rightarrow> bool)
     \<Rightarrow> error + PDFObject list option" where
  "validateNumberArrayEntry x dict dictName entryName required sinceVersion validate =
     validateKindEntry x dict dictName entryName required sinceVersion
       (arrayOfKind x numberKind) validate"

definition validateStringArrayEntry ::
  "env \<Rightarrow> PDFDict \<Rightarrow> string \<Rightarrow> string \<Rightarrow> bool \<Rightarrow> PDFVersion \<Rightarrow> (PDFObject list \<Rightarrow> bool)
     \<Rightarrow> error + PDFObject list option" where
  "validateStringArrayEntry x dict dictName entryName required sinceVersion validate =
     validateKindEntry x dict dictName entryName required sinceVersion
       (arrayOfKind x stringKind) validate"

text \<open>A rectangle is an array of exactly four numbers.\<close>

definition validateRectangleEntry ::
  "env \<Rightarrow> PDFDict \<Rightarrow> string \<Rightarrow> string \<Rightarrow> bool \<Rightarrow> PDFVersion \<Rightarrow> (PDFObject list \<Rightarrow> bool)
     \<Rightarrow> error + PDFObject list option" where
  "validateRectangleEntry x dict dictName entryName required sinceVersion validate =
     validateKindEntry x dict dictName entryName required sinceVersion
       (arrayOfKind x numberKind) (\<lambda>a. length a = 4 \<and> validate a)"

definition validateDictEntry ::
  "env \<Rightarrow> PDFDict \<Rightarrow> string \<Rightarrow> string \<Rightarrow> bool \<Rightarrow> PDFVersion \<Rightarrow> (PDFDict \<Rightarrow> bool)
     \<Rightarrow> error + PDFDict option" where
  "validateDictEntry x dict dictName entryName required sinceVersion validate =
     validateKindEntry x dict dictName entryName required sinceVersion dictKind validate"

definition validateStreamDictEntry ::
  "env \<Rightarrow> PDFDict \<Rightarrow> string \<Rightarrow> string \<Rightarrow> bool \<Rightarrow> PDFVersion \<Rightarrow> (StreamDict \<Rightarrow> bool)
     \<Rightarrow> error + StreamDict option" where
  "validateStreamDictEntry x dict dictName entryName required sinceVersion validate =
     validateKindEntry x dict dictName entryName required sinceVersion streamDictKind validate"

text \<open>
  Modelled from the spec: \<open>validateFileSpecEntry\<close> and \<open>validateColorSpaceEntry\<close>,
  which are not in the source file: the same contract, for a file specification and for
  a color space. What a file specification and a color space are is left to the context;
  a color space entry has no minimum version, and \<open>excludePatternCS\<close> is handed to
  the check of the value.
\<close>

definition validateFileSpecEntry ::
  "env \<Rightarrow> PDFDict \<Rightarrow> string \<Rightarrow> string \<Rightarrow> bool \<Rightarrow> PDFVersion \<Rightarrow> error + unit option" where
  "validateFileSpecEntry x dict dictName entryName required sinceVersion =
     validateKindEntry x dict dictName entryName required sinceVersion (fileSpecKind x)
       (\<lambda>_. True)"

definition validateColorSpaceEntry ::
  "env \<Rightarrow> PDFDict \<Rightarrow> string \<Rightarrow> string \<Rightarrow> bool \<Rightarrow> bool \<Rightarrow> error + unit" where
  "validateColorSpaceEntry x dict dictName entryName required excludePatternCS =
     andThen (validateKindEntry x dict dictName entryName required V10
                (colorSpaceKind x excludePatternCS) (\<lambda>_. True))
       (Inr ())"

text \<open>
  Modelled from the spec: \<open>validateMetadata\<close>, which is not in the source file: the
  entry \<open>Metadata\<close> is an optional external-metadata stream, whose validation is
  delegated to the context.
\<close>

definition validateMetadata :: "env \<Rightarrow> PDFDict \<Rightarrow> bool \<Rightarrow> PDFVersion \<Rightarrow> error + unit" where
  "validateMetadata x dict required sinceVersion =
     (case validateStreamDictEntry x dict ''dict'' ''Metadata'' required sinceVersion
             (\<lambda>_. True) of
        Inl e \<Rightarrow> Inl e
      | Inr None \<Rightarrow> Inr ()
      | Inr (Some sd) \<Rightarrow> metadataStream x sd)"

text \<open>Modelled from the spec: \<open>memberOf\<close>, which is not in the source file.\<close>

definition memberOf :: "string \<Rightarrow> string list \<Rightarrow> bool" where
  "memberOf s xs = (s \<in> set xs)"

section \<open>Reference dictionaries\<close>

definition validateReferenceDictPageEntry :: "env \<Rightarrow> PDFObject \<Rightarrow> error + unit" where
  "validateReferenceDictPageEntry x obj =
     (case Dereference x obj of
        Inl e \<Rightarrow> Inl e
      | Inr v \<Rightarrow>
          if v = PDFNil then Inr ()
          else (case v of
                  PDFInteger _ \<Rightarrow> Inr ()
                | PDFStringLiteral _ \<Rightarrow> Inr ()
                | PDFHexLiteral _ \<Rightarrow> Inr ()
                | _ \<Rightarrow> Inl TypeMismatch \<comment> \<open>corrupt type\<close>))"

definition validateReferenceDict :: "env \<Rightarrow> PDFDict \<Rightarrow> error + unit" where
  "validateReferenceDict x dict =
     (let dictName = ''refDict'' in
      andThen (validateFileSpecEntry x dict dictName ''F'' REQUIRED V10)
        (case Find dict ''Page'' of
           None \<Rightarrow> Inl MissingRequiredEntry \<comment> \<open>missing required entry Page\<close>
         | Some obj \<Rightarrow>
             andThen (validateReferenceDictPageEntry x obj)
               (andThen (validateStringArrayEntry x dict dictName ''ID'' OPTIONAL V10
                           (\<lambda>arr. length arr = 2))
                  (Inr ()))))"

section \<open>OPI dictionaries\<close>

definition validateOPIDictV13Part1 :: "env \<Rightarrow> PDFDict \<Rightarrow> string \<Rightarrow> error + unit" where
  "validateOPIDictV13Part1 x dict dictName =
     andThen (validateNameEntry x dict dictName ''Type'' OPTIONAL V10 (\<lambda>s. s = ''OPI''))
    (andThen (validateNumberEntry x dict dictName ''Version'' REQUIRED V10 (\<lambda>f. f = 13 / 10))
    (andThen (validateFileSpecEntry x dict dictName ''F'' REQUIRED V10)
    (andThen (validateStringEntry x dict dictName ''ID'' OPTIONAL V10 (\<lambda>_. True))
    (andThen (validateStringEntry x dict dictName ''Comments'' OPTIONAL V10 (\<lambda>_. True))
    (andThen (validateIntegerArrayEntry x dict dictName ''Size'' REQUIRED V10 (\<lambda>a. length a = 2))
    (andThen (validateRectangleEntry x dict dictName ''CropRect'' REQUIRED V10 (\<lambda>_. True))
    (andThen (validateRectangleEntry x dict dictName ''CropFixed'' OPTIONAL V10 (\<lambda>_. True))
    (andThen (validateNumberArrayEntry x dict dictName ''Position'' REQUIRED V10 (\<lambda>a. length a = 8))
       (Inr ())))))))))"

definition validateOPIDictV13Part2 :: "env \<Rightarrow> PDFDict \<Rightarrow> string \<Rightarrow> error + unit" where
  "validateOPIDictV13Part2 x dict dictName =
     andThen (validateNumberArrayEntry x dict dictName ''Resolution'' OPTIONAL V10 (\<lambda>a. length a = 2))
    (andThen (validateNameEntry x dict dictName ''ColorType'' OPTIONAL V10
                (\<lambda>s. s = ''Process'' \<or> s = ''Spot'' \<or> s = ''Separation''))
    (andThen (validateArrayEntry x dict dictName ''Color'' OPTIONAL V10 (\<lambda>a. length a = 5))
    (andThen (validateNumberEntry x dict dictName ''Tint'' OPTIONAL V10 (\<lambda>_. True))
    (andThen (validateBooleanEntry x dict dictName ''Overprint'' OPTIONAL V10 (\<lambda>_. True))
    (andThen (validateIntegerArrayEntry x dict dictName ''ImageType'' OPTIONAL V10 (\<lambda>a. length a = 2))
    (andThen (validateIntegerArrayEntry x dict dictName ''GrayMap'' OPTIONAL V10 (\<lambda>_. True))
    (andThen (validateBooleanEntry x dict dictName ''Transparency'' OPTIONAL V10 (\<lambda>_. True))
    (andThen (validateArrayEntry x dict dictName ''Tags'' OPTIONAL V10 (\<lambda>_. True))
       (Inr ())))))))))"

definition validateOPIDictV13 :: "env \<Rightarrow> PDFDict \<Rightarrow> error + unit" where
  "validateOPIDictV13 x dict =
     (let dictName = ''opiDictV13'' in
      andThen (validateOPIDictV13Part1 x dict dictName) (validateOPIDictV13Part2 x dict dictName))"

definition validateOPIDictInks :: "env \<Rightarrow> PDFObject \<Rightarrow> error + unit" where
  "validateOPIDictInks x obj =
     (case Dereference x obj of
        Inl e \<Rightarrow> Inl e
      | Inr v \<Rightarrow>
          if v = PDFNil then Inr ()
          else (case v of
                  PDFName colorant \<Rightarrow>
                    if colorant \<noteq> ''full_color'' \<and> colorant \<noteq> ''registration''
                    then Inl ConstraintViolation \<comment> \<open>corrupt colorant name\<close>
                    else Inr ()
                | PDFArray _ \<Rightarrow> Inr ()
                | _ \<Rightarrow> Inl TypeMismatch \<comment> \<open>corrupt type\<close>))"

definition validateOPIDictV20 :: "env \<Rightarrow> PDFDict \<Rightarrow> error + unit" where
  "validateOPIDictV20 x dict =
     (let dictName = ''opiDictV20'' in
     andThen (validateNameEntry x dict dictName ''Type'' OPTIONAL V10 (\<lambda>s. s = ''OPI''))
    (andThen (validateNumberEntry x dict dictName ''Version'' REQUIRED V10 (\<lambda>f. f = 2))
    (andThen (validateFileSpecEntry x dict dictName ''F'' REQUIRED V10)
    (andThen (validateStringEntry x dict dictName ''MainImage'' OPTIONAL V10 (\<lambda>_. True))
    (andThen (validateArrayEntry x dict dictName ''Tags'' OPTIONAL V10 (\<lambda>_. True))
    (andThen (validateNumberArrayEntry x dict dictName ''Size'' OPTIONAL V10 (\<lambda>arr. length arr = 2))
    (andThen (validateRectangleEntry x dict dictName ''CropRect'' OPTIONAL V10 (\<lambda>_. True))
    (andThen (validateBooleanEntry x dict dictName ''Overprint'' OPTIONAL V10 (\<lambda>_. True))
    (andThen (case Find dict ''Inks'' of
                None \<Rightarrow> Inr ()
              | Some obj \<Rightarrow> validateOPIDictInks x obj)
    (andThen (validateIntegerArrayEntry x dict dictName ''IncludedImageDimensions'' OPTIONAL V10
                (\<lambda>arr. length arr = 2))
    (andThen (validateIntegerEntry x dict dictName ''IncludedImageQuality'' OPTIONAL V10
                (\<lambda>i. 1 \<le> i \<and> i \<le> 3))
       (Inr ()))))))))))))"

text \<open>
  The body of the \<open>range\<close> loop of \<open>validateOPIVersionDict\<close> over the entries of
  the dictionary. An entry that resolves to the null object ends the whole function
  without an error (\<open>return err\<close> with \<open>err == nil\<close>).
\<close>

fun validateOPIVersionEntries :: "env \<Rightarrow> (string \<times> PDFObject) list \<Rightarrow> error + unit" where
  "validateOPIVersionEntries x [] = Inr ()"
| "validateOPIVersionEntries x ((opiVersion, obj) # rest) =
     (if \<not> memberOf opiVersion [''1.3'', ''2.0'']
      then Inl SchemaViolation \<comment> \<open>invalid OPI version\<close>
      else (case DereferenceDict x obj of
              Inl e \<Rightarrow> Inl e
            | Inr None \<Rightarrow> Inr ()
            | Inr (Some d) \<Rightarrow>
                (case (if opiVersion = ''1.3'' then validateOPIDictV13 x d
                       else validateOPIDictV20 x d) of
                   Inl e \<Rightarrow> Inl e
                 | Inr _ \<Rightarrow> validateOPIVersionEntries x rest)))"

definition validateOPIVersionDict :: "env \<Rightarrow> PDFDict \<Rightarrow> error + unit" where
  "validateOPIVersionDict x dict =
     (if Len dict \<noteq> 1
      then Inl SchemaViolation \<comment> \<open>must have exactly one entry keyed 1.3 or 2.0\<close>
      else validateOPIVersionEntries x (entries dict))"

definition validateEntryOPI ::
  "env \<Rightarrow> PDFDict \<Rightarrow> string \<Rightarrow> string \<Rightarrow> bool \<Rightarrow> PDFVersion \<Rightarrow> error + unit" where
  "validateEntryOPI x dict dictName entryName required sinceVersion =
     (case validateDictEntry x dict dictName entryName required sinceVersion (\<lambda>_. True) of
        Inl e \<Rightarrow> Inl e
      | Inr None \<Rightarrow> Inr ()
      | Inr (Some d) \<Rightarrow> validateOPIVersionDict x d)"

definition validateEntryOC ::
  "env \<Rightarrow> PDFDict \<Rightarrow> string \<Rightarrow> string \<Rightarrow> bool \<Rightarrow> PDFVersion \<Rightarrow> error + unit" where
  "validateEntryOC x dict dictName entryName required sinceVersion =
     (case validateDictEntry x dict dictName entryName required sinceVersion (\<lambda>_. True) of
        Inl e \<Rightarrow> Inl e
      | Inr None \<Rightarrow> Inr ()
      | Inr (Some d) \<Rightarrow> validateOptionalContentGroupDict x d sinceVersion)"

section \<open>Image objects\<close>

text \<open>
  The result of a validator that may call itself on a nested object: it returns success
  or an error, it panics (a nil pointer is dereferenced), or the nesting is deeper than
  the fuel given, the bound on the depth of nested calls of \<open>validateImageStreamDict\<close>.
  A call that is \<open>OutOfFuel\<close> for every amount of fuel never returns.
\<close>

datatype outcome = Ok | Fail error | Panic | OutOfFuel

definition lift :: "error + 'a \<Rightarrow> outcome" where
  "lift r = (case r of Inl e \<Rightarrow> Fail e | Inr _ \<Rightarrow> Ok)"

definition thenO :: "outcome \<Rightarrow> outcome \<Rightarrow> outcome" where
  "thenO r k = (case r of Ok \<Rightarrow> k | _ \<Rightarrow> r)"

text \<open>
  In the validators below \<open>rec\<close> stands for the recursive call of
  \<open>validateImageStreamDict\<close>, with the fuel that is left.
\<close>

definition validateMaskStreamDict ::
  "(StreamDict \<Rightarrow> bool \<Rightarrow> outcome) \<Rightarrow> env \<Rightarrow> StreamDict \<Rightarrow> outcome" where
  "validateMaskStreamDict rec x streamDict =
     (if Type (fst streamDict) \<noteq> None \<and> Type (fst streamDict) \<noteq> Some ''XObject''
      then Fail ConstraintViolation \<comment> \<open>corrupt imageStreamDict type\<close>
      else if Subtype (fst streamDict) \<noteq> Some ''Image''
      then Fail ConstraintViolation \<comment> \<open>corrupt imageStreamDict subtype\<close>
      else rec streamDict isNoAlternateImageStreamDict)"

definition validateMaskEntry ::
  "(StreamDict \<Rightarrow> bool \<Rightarrow> outcome) \<Rightarrow> env \<Rightarrow> PDFDict \<Rightarrow> string \<Rightarrow> string \<Rightarrow> bool \<Rightarrow> PDFVersion
     \<Rightarrow> outcome" where
  "validateMaskEntry rec x dict dictName entryName required sinceVersion =
     (case validateEntry x dict dictName entryName required sinceVersion of
        Inl e \<Rightarrow> Fail e
      | Inr None \<Rightarrow> Ok
      | Inr (Some obj) \<Rightarrow>
          (case obj of
             PDFStreamDict d f \<Rightarrow> validateMaskStreamDict rec x (d, f)
           | PDFArray _ \<Rightarrow> Ok
           | _ \<Rightarrow> Fail TypeMismatch \<comment> \<open>corrupt entry\<close>))"

text \<open>The loop of \<open>validateAlternateImageStreamDicts\<close> over the array.\<close>

fun validateAlternates ::
  "(StreamDict \<Rightarrow> bool \<Rightarrow> outcome) \<Rightarrow> env \<Rightarrow> PDFObject list \<Rightarrow> outcome" where
  "validateAlternates rec x [] = Ok"
| "validateAlternates rec x (obj # arr) =
     (case validateStreamDict x obj of
        Inl e \<Rightarrow> Fail e
      | Inr None \<Rightarrow> validateAlternates rec x arr
      | Inr (Some streamDict) \<Rightarrow>
          thenO (rec streamDict isAlternateImageStreamDict) (validateAlternates rec x arr))"

definition validateAlternateImageStreamDicts ::
  "(StreamDict \<Rightarrow> bool \<Rightarrow> outcome) \<Rightarrow> env \<Rightarrow> PDFDict \<Rightarrow> string \<Rightarrow> string \<Rightarrow> bool \<Rightarrow> PDFVersion
     \<Rightarrow> outcome" where
  "validateAlternateImageStreamDicts rec x dict dictName entryName required sinceVersion =
     (case validateArrayEntry x dict dictName entryName required sinceVersion (\<lambda>_. True) of
        Inl e \<Rightarrow> Fail e
      | Inr None \<Rightarrow> if required then Fail MissingRequiredEntry else Ok
      | Inr (Some arr) \<Rightarrow> validateAlternates rec x arr)"

definition validateImageStreamDictPart1 :: "env \<Rightarrow> StreamDict \<Rightarrow> string \<Rightarrow> error + bool" where
  "validateImageStreamDictPart1 x streamDict dictName =
     (let dict = fst streamDict in
      andThen (validateIntegerEntry x dict dictName ''Width'' REQUIRED V10 (\<lambda>_. True))
     (andThen (validateIntegerEntry x dict dictName ''Height'' REQUIRED V10 (\<lambda>_. True))
     (case validateBooleanEntry x dict dictName ''ImageMask'' OPTIONAL V10 (\<lambda>_. True) of
        Inl e \<Rightarrow> Inl e
      | Inr imageMask \<Rightarrow>
          (let isImageMask = (imageMask = Some True) in
           if \<not> isImageMask
           then (let required0 = (if HasSoleFilterNamed streamDict JPX then OPTIONAL
                                  else REQUIRED);
                     required = (if HasSoleFilterNamed streamDict CCITTFax
                                    \<and> ValidationMode x = ValidationRelaxed then OPTIONAL
                                 else required0)
                 in andThen (validateColorSpaceEntry x dict dictName ''ColorSpace'' required
                               ExcludePatternCS)
                      (Inr isImageMask))
           else Inr isImageMask))))"

definition validateImageStreamDictPart2 ::
  "(StreamDict \<Rightarrow> bool \<Rightarrow> outcome) \<Rightarrow> env \<Rightarrow> StreamDict \<Rightarrow> string \<Rightarrow> bool \<Rightarrow> bool \<Rightarrow> outcome" where
  "validateImageStreamDictPart2 rec x streamDict dictName isImageMask isAlternate =
     (let dict = fst streamDict;
          required = (if HasSoleFilterNamed streamDict JPX \<or> isImageMask then OPTIONAL
                      else REQUIRED);
          validateBPC = (if isImageMask then (\<lambda>i. i = 1) else (\<lambda>_. True));
          validate = (\<lambda>s. memberOf s [''AbsoluteColorimetric'', ''RelativeColorimetric'',
                                       ''Saturation'', ''Perceptual''])
      in
      thenO (lift (validateIntegerEntry x dict dictName ''BitsPerComponent'' required V10
                     validateBPC))
     (thenO (lift (validateNameEntry x dict dictName ''Intent'' OPTIONAL V11 validate))
     (thenO (if \<not> isImageMask
             then validateMaskEntry rec x dict dictName ''Mask'' OPTIONAL V13
             else Ok)
     (thenO (lift (validateNumberArrayEntry x dict dictName ''Decode'' OPTIONAL V10 (\<lambda>_. True)))
     (thenO (lift (validateBooleanEntry x dict dictName ''Interpolate'' OPTIONAL V10 (\<lambda>_. True)))
     (thenO (if \<not> isAlternate
             then validateAlternateImageStreamDicts rec x dict dictName ''Alternates'' OPTIONAL V13
             else Ok)
        Ok))))))"

text \<open>
  The body of \<open>validateImageStreamDict\<close>, after both parts: the soft mask, a nested
  image object, and the remaining entries.
\<close>

definition validateImageStreamDictRest ::
  "(StreamDict \<Rightarrow> bool \<Rightarrow> outcome) \<Rightarrow> env \<Rightarrow> StreamDict \<Rightarrow> string \<Rightarrow> outcome" where
  "validateImageStreamDictRest rec x streamDict dictName =
     (let dict = fst streamDict;
          sinceVersion = (if ValidationMode x = ValidationRelaxed then V13 else V14)
      in
      case validateStreamDictEntry x dict dictName ''SMask'' OPTIONAL sinceVersion (\<lambda>_. True) of
        Inl e \<Rightarrow> Fail e
      | Inr sd \<Rightarrow>
          thenO (case sd of None \<Rightarrow> Ok | Some s \<Rightarrow> rec s isNoAlternateImageStreamDict)
         (lift
           (andThen (validateIntegerEntry x dict dictName ''SMaskInData'' OPTIONAL V10
                       (\<lambda>i. 0 \<le> i \<and> i \<le> 2))
           (andThen (validateNameEntry x dict dictName ''Name'' (Version x = V10) V10 (\<lambda>_. True))
           (andThen (validateIntegerEntry x dict dictName ''StructParent'' OPTIONAL V13 (\<lambda>_. True))
           (andThen (validateStringEntry x dict dictName ''ID'' OPTIONAL V13 (\<lambda>_. True))
           (andThen (validateEntryOPI x dict dictName ''OPI'' OPTIONAL V12)
           (andThen (validateMetadata x dict OPTIONAL V14)
              (validateEntryOC x dict dictName ''OC'' OPTIONAL V15)))))))))"

definition validateImageStreamDictBody ::
  "(StreamDict \<Rightarrow> bool \<Rightarrow> outcome) \<Rightarrow> env \<Rightarrow> StreamDict \<Rightarrow> bool \<Rightarrow> outcome" where
  "validateImageStreamDictBody rec x streamDict isAlternate =
     (let dictName = ''imageStreamDict'' in
      case validateImageStreamDictPart1 x streamDict dictName of
        Inl e \<Rightarrow> Fail e
      | Inr isImageMask \<Rightarrow>
          thenO (validateImageStreamDictPart2 rec x streamDict dictName isImageMask isAlternate)
            (validateImageStreamDictRest rec x streamDict dictName))"

text \<open>
  \<open>validateImageStreamDict\<close>: the source function calls itself for a mask, for each
  alternate and for a soft mask, with nothing that bounds the nesting. The first argument
  is the fuel: the depth of nested calls allowed.
\<close>

primrec validateImageStreamDict :: "nat \<Rightarrow> env \<Rightarrow> StreamDict \<Rightarrow> bool \<Rightarrow> outcome" where
  "validateImageStreamDict 0 x streamDict isAlternate = OutOfFuel"
| "validateImageStreamDict (Suc n) x streamDict isAlternate =
     validateImageStreamDictBody (validateImageStreamDict n x) x streamDict isAlternate"

section \<open>Form objects\<close>

definition validateFormStreamDictPart1 :: "env \<Rightarrow> StreamDict \<Rightarrow> string \<Rightarrow> error + unit" where
  "validateFormStreamDictPart1 x streamDict dictName =
     (let dict = fst streamDict in
      andThen (validateIntegerEntry x dict dictName ''FormType'' OPTIONAL V10 (\<lambda>i. i = 1))
     (andThen (validateRectangleEntry x dict dictName ''BBox'' REQUIRED V10 (\<lambda>_. True))
     (andThen (validateNumberArrayEntry x dict dictName ''Matrix'' OPTIONAL V10
                 (\<lambda>arr. length arr = 6))
     (andThen (case Find dict ''Resources'' of
                 None \<Rightarrow> Inr ()
               | Some obj \<Rightarrow> andThen (validateResourceDict x obj) (Inr ()))
     (andThen (validatePageEntryGroup x dict OPTIONAL V14)
     (case validateDictEntry x dict dictName ''Ref'' OPTIONAL V14 (\<lambda>_. True) of
        Inl e \<Rightarrow> Inl e
      | Inr d \<Rightarrow>
          andThen (case d of None \<Rightarrow> Inr () | Some r \<Rightarrow> validateReferenceDict x r)
            (validateMetadata x dict OPTIONAL V14)))))))"

definition validateFormStreamDictPart2 :: "env \<Rightarrow> PDFDict \<Rightarrow> string \<Rightarrow> error + unit" where
  "validateFormStreamDictPart2 x dict dictName =
     (case validatePieceInfo x dict dictName ''PieceInfo'' OPTIONAL V13 of
        Inl e \<Rightarrow> Inl e
      | Inr hasPieceInfo \<Rightarrow>
     (case validateDateEntry x dict dictName ''LastModified'' OPTIONAL V13 of
        Inl e \<Rightarrow> Inl e
      | Inr lm \<Rightarrow>
          if hasPieceInfo \<and> lm = None
          then Inl MissingDependentEntry \<comment> \<open>missing LastModified (required by PieceInfo)\<close>
          else
     (case validateIntegerEntry x dict dictName ''StructParent'' OPTIONAL V13 (\<lambda>_. True) of
        Inl e \<Rightarrow> Inl e
      | Inr sp \<Rightarrow>
     (case validateIntegerEntry x dict dictName ''StructParents'' OPTIONAL V13 (\<lambda>_. True) of
        Inl e \<Rightarrow> Inl e
      | Inr sps \<Rightarrow>
          if sp \<noteq> None \<and> sps \<noteq> None
          then Inl ConflictingEntries \<comment> \<open>only StructParent or StructParents allowed\<close>
          else
            andThen (validateEntryOPI x dict dictName ''OPI'' OPTIONAL V12)
           (andThen (validateOptionalContent x dict dictName ''OC'' OPTIONAL V15)
           (andThen (validateNameEntry x dict dictName ''Name'' (Version x = V10) V10 (\<lambda>_. True))
              (Inr ())))))))"

definition validateFormStreamDict :: "env \<Rightarrow> StreamDict \<Rightarrow> error + unit" where
  "validateFormStreamDict x streamDict =
     (let dictName = ''formStreamDict'' in
      andThen (validateFormStreamDictPart1 x streamDict dictName)
        (validateFormStreamDictPart2 x (fst streamDict) dictName))"

section \<open>External objects\<close>

text \<open>
  \<open>validateXObjectStreamDict\<close>. After \<open>DereferenceStreamDict\<close> the source tests
  \<open>obj == nil\<close>, the argument, and then reads \<open>sd.PDFDict\<close>: when the argument is
  not nil and resolves to the null object, \<open>sd\<close> is a nil pointer and the read panics.
\<close>

definition validateXObjectStreamDict :: "nat \<Rightarrow> env \<Rightarrow> PDFObject \<Rightarrow> outcome" where
  "validateXObjectStreamDict n x obj =
     (case DereferenceStreamDict x obj of
        Inl e \<Rightarrow> Fail e
      | Inr sdo \<Rightarrow>
          if obj = PDFNil then Ok
          else (case sdo of
                  None \<Rightarrow> Panic
                | Some sd \<Rightarrow>
     (let d = fst sd; dictName = ''xObjectStreamDict'' in
      case validateNameEntry x d dictName ''Type'' OPTIONAL V10 (\<lambda>s. s = ''XObject'') of
        Inl e \<Rightarrow> Fail e
      | Inr _ \<Rightarrow>
     (let required = (if ValidationMode x = ValidationRelaxed then OPTIONAL else REQUIRED) in
      case validateNameEntry x d dictName ''Subtype'' required V10 (\<lambda>_. True) of
        Inl e \<Rightarrow> Fail e
      | Inr None \<Rightarrow>
          (case Find (fst sd) ''BBox'' of
             Some _ \<Rightarrow> lift (validateFormStreamDict x sd)
           | None \<Rightarrow> validateImageStreamDict n x sd isNoAlternateImageStreamDict)
      | Inr (Some subtype) \<Rightarrow>
          if subtype = ''Form'' then lift (validateFormStreamDict x sd)
          else if subtype = ''Image''
          then validateImageStreamDict n x sd isNoAlternateImageStreamDict
          else if subtype = ''PS''
          then Fail UnsupportedConstruct \<comment> \<open>PostScript XObjects should not be used\<close>
          else Fail UnknownSubtype \<comment> \<open>unknown Subtype\<close>))))"

section \<open>Example documents\<close>

text \<open>
  A concrete context: the objects of the document are listed by object number, an
  object number that is not listed resolves to the null object, every value is a file
  specification and a date, a color space is a name or an array (the name
  \<open>Pattern\<close> only when patterns are not excluded), piece info is reported present when
  the key is, and the other validators taken as parameters accept every dictionary.
\<close>

definition tableEnv :: "(nat \<times> PDFObject) list \<Rightarrow> PDFVersion \<Rightarrow> ValidationMode \<Rightarrow> env" where
  "tableEnv objs v m =
     \<lparr> dereference = (\<lambda>n g. case map_of objs n of None \<Rightarrow> Inr PDFNil | Some obj \<Rightarrow> Inr obj),
       Version = v,
       ValidationMode = m,
       fileSpecKind = (\<lambda>v. Inr ()),
       colorSpaceKind =
         (\<lambda>ex v. case v of
                    PDFName s \<Rightarrow> if ex \<and> s = ''Pattern'' then Inl ConstraintViolation else Inr ()
                  | PDFArray _ \<Rightarrow> Inr ()
                  | _ \<Rightarrow> Inl TypeMismatch),
       metadataStream = (\<lambda>sd. Inr ()),
       validateOptionalContentGroupDict = (\<lambda>d sv. Inr ()),
       validateOptionalContent = (\<lambda>d dn k r sv. Inr ()),
       validatePieceInfo = (\<lambda>d dn k r sv. Inr (Find d k \<noteq> None)),
       validateResourceDict = (\<lambda>obj. Inr True),
       validatePageEntryGroup = (\<lambda>d r sv. Inr ()),
       isDate = (\<lambda>s. True) \<rparr>"

text \<open>An image object, object number 1, whose \<open>Mask\<close> entry refers to object 1.\<close>

definition selfMaskImage :: StreamDict where
  "selfMaskImage =
     ([(''Type'', PDFName ''XObject''), (''Subtype'', PDFName ''Image''),
       (''Width'', PDFInteger 1), (''Height'', PDFInteger 1),
       (''ColorSpace'', PDFName ''DeviceGray''), (''BitsPerComponent'', PDFInteger 8),
       (''Mask'', PDFIndirectRef 1 0)], [])"

definition selfMaskEnv :: env where
  "selfMaskEnv =
     tableEnv [(1, PDFStreamDict (fst selfMaskImage) (snd selfMaskImage))] V17 ValidationStrict"

section \<open>Auxiliary predicates\<close>

text \<open>A check passes: it returns no error.\<close>

definition passes :: "error + 'a \<Rightarrow> bool" where
  "passes r = (\<not> isl r)"

text \<open>
  \<open>reachesMask x sd sd'\<close>: the validation of the image object \<open>sd\<close> gets as far as
  the nested call for its \<open>Mask\<close> entry, and that entry resolves to the image object
  \<open>sd'\<close>. The object is not an image mask and its first phase passes, the entries
  \<open>BitsPerComponent\<close> and \<open>Intent\<close>, checked before \<open>Mask\<close>, pass, and the
  mask is a stream dictionary that \<open>validateMaskStreamDict\<close> lets through.
\<close>

definition reachesMask :: "env \<Rightarrow> StreamDict \<Rightarrow> StreamDict \<Rightarrow> bool" where
  "reachesMask x sd sd' =
     (validateImageStreamDictPart1 x sd ''imageStreamDict'' = Inr False
      \<and> passes (validateIntegerEntry x (fst sd) ''imageStreamDict'' ''BitsPerComponent''
                  (if HasSoleFilterNamed sd JPX then OPTIONAL else REQUIRED) V10 (\<lambda>_. True))
      \<and> passes (validateNameEntry x (fst sd) ''imageStreamDict'' ''Intent'' OPTIONAL V11
                  (\<lambda>s. memberOf s [''AbsoluteColorimetric'', ''RelativeColorimetric'',
                                     ''Saturation'', ''Perceptual'']))
      \<and> validateEntry x (fst sd) ''imageStreamDict'' ''Mask'' OPTIONAL V13
            = Inr (Some (PDFStreamDict (fst sd') (snd sd')))
      \<and> (Type (fst sd') = None \<or> Type (fst sd') = Some ''XObject'')
      \<and> Subtype (fst sd') = Some ''Image'')"

text \<open>A document with no indirect objects, at version 1.7, validated strictly.\<close>

definition plainEnv :: env where
  "plainEnv = tableEnv [] V17 ValidationStrict"

text \<open>
  An OPI 1.3 dictionary with all its required entries and an \<open>Inks\<close> entry that is
  an integer, and an OPI 2.0 dictionary with a given \<open>Inks\<close> entry.
\<close>

definition opiDictV13BadInks :: PDFDict where
  "opiDictV13BadInks =
     [(''Type'', PDFName ''OPI''), (''Version'', PDFFloat (13 / 10)),
      (''F'', PDFStringLiteral ''image.tif''),
      (''Size'', PDFArray [PDFInteger 100, PDFInteger 50]),
      (''CropRect'', PDFArray [PDFInteger 0, PDFInteger 0, PDFInteger 100, PDFInteger 50]),
      (''Position'', PDFArray [PDFInteger 0, PDFInteger 0, PDFInteger 0, PDFInteger 50,
                               PDFInteger 100, PDFInteger 50, PDFInteger 100, PDFInteger 0]),
      (''Inks'', PDFInteger 5)]"

definition opiDictV20 :: "PDFObject \<Rightarrow> PDFDict" where
  "opiDictV20 inks =
     [(''Type'', PDFName ''OPI''), (''Version'', PDFInteger 2),
      (''F'', PDFStringLiteral ''image.tif''),
      (''Inks'', inks)]"

text \<open>
  A stencil mask, an image object with \<open>ImageMask\<close> true, and an image object with
  a given \<open>Mask\<close> entry.
\<close>

definition maskImage :: PDFDict where
  "maskImage =
     [(''Type'', PDFName ''XObject''), (''Subtype'', PDFName ''Image''),
      (''Width'', PDFInteger 1), (''Height'', PDFInteger 1),
      (''ImageMask'', PDFBoolean True), (''BitsPerComponent'', PDFInteger 1)]"

definition maskedImage :: "PDFObject \<Rightarrow> StreamDict" where
  "maskedImage m =
     ([(''Type'', PDFName ''XObject''), (''Subtype'', PDFName ''Image''),
       (''Width'', PDFInteger 2), (''Height'', PDFInteger 2),
       (''ColorSpace'', PDFName ''DeviceGray''), (''BitsPerComponent'', PDFInteger 8),
       (''Mask'', m)], [])"

text \<open>
  An image object with width, height, color space and bits per component, and the same
  with an \<open>Alternates\<close> array.
\<close>

definition plainImage :: PDFDict where
  "plainImage =
     [(''Type'', PDFName ''XObject''), (''Subtype'', PDFName ''Image''),
      (''Width'', PDFInteger 2), (''Height'', PDFInteger 2),
      (''ColorSpace'', PDFName ''DeviceGray''), (''BitsPerComponent'', PDFInteger 8)]"

definition imageWithAlternates :: "PDFObject list \<Rightarrow> StreamDict" where
  "imageWithAlternates alts = (plainImage @ [(''Alternates'', PDFArray alts)], [])"

text \<open>A form object with a bounding box only, with or without its \<open>Subtype\<close>.\<close>

definition formDict :: "bool \<Rightarrow> PDFDict" where
  "formDict tagged =
     (if tagged then [(''Subtype'', PDFName ''Form'')] else [])
     @ [(''BBox'', PDFArray [PDFInteger 0, PDFInteger 0, PDFInteger 10, PDFInteger 10])]"

definition relaxedEnv :: env where
  "relaxedEnv = tableEnv [] V17 ValidationRelaxed"

section \<open>Properties\<close>

lemmas prim_defs =
  validateKindEntry_def validateEntry_def validateIntegerEntry_def validateBooleanEntry_def
  validateNameEntry_def validateNumberEntry_def validateStringEntry_def validateDateEntry_def
  validateArrayEntry_def validateIntegerArrayEntry_def validateNumberArrayEntry_def
  validateStringArrayEntry_def validateRectangleEntry_def validateDictEntry_def
  validateStreamDictEntry_def validateFileSpecEntry_def validateColorSpaceEntry_def
  validateMetadata_def absentEntry_def versionViolated_def anyKind_def integerKind_def
  booleanKind_def nameKind_def numberKind_def stringKind_def arrayKind_def dictKind_def
  streamDictKind_def arrayOfKind_def Find_def Dereference_def andThen_def REQUIRED_def
  OPTIONAL_def V10_def V11_def V12_def V13_def V14_def V15_def V16_def V17_def memberOf_def

subsection \<open>The entry point on a reference to no object\<close>

text \<open>
  Claim C6 says that the external-object entry point returns success or a validation
  error for every input reference, also for a reference that resolves to no object at
  all. On an indirect reference to an object the document does not have, the source
  reads a field through a nil pointer: the call panics, for every amount of fuel.
\<close>

theorem validateXObjectStreamDict_null_target_panics:
  "validateXObjectStreamDict n (tableEnv [] V17 ValidationStrict) (PDFIndirectRef 1 0) = Panic"
  by (simp add: validateXObjectStreamDict_def DereferenceStreamDict_def Dereference_def
      tableEnv_def)

subsection \<open>Image objects whose mask leads back to themselves\<close>

lemma lift_passes: "passes r \<Longrightarrow> lift r = Ok"
  by (cases r) (simp_all add: passes_def lift_def)

lemma thenO_simps [simp]:
  "thenO Ok k = k"
  "thenO (Fail e) k = Fail e"
  "thenO Panic k = Panic"
  "thenO OutOfFuel k = OutOfFuel"
  by (simp_all add: thenO_def)

lemma reachesMask_step:
  assumes "reachesMask x sd sd'" and "rec sd' False = OutOfFuel"
  shows "validateImageStreamDictBody rec x sd alt = OutOfFuel"
  using assms
  by (simp add: reachesMask_def validateImageStreamDictBody_def validateImageStreamDictPart2_def
      validateMaskEntry_def validateMaskStreamDict_def lift_passes
      isNoAlternateImageStreamDict_def)

lemma selfMask_reaches: "reachesMask selfMaskEnv selfMaskImage selfMaskImage"
  by (simp add: reachesMask_def passes_def validateImageStreamDictPart1_def selfMaskEnv_def
      selfMaskImage_def tableEnv_def prim_defs HasSoleFilterNamed_def ExcludePatternCS_def
      JPX_def CCITTFax_def Type_def Subtype_def NameEntry_def)

text \<open>
  Claim C1 says that an image object whose \<open>Mask\<close> leads, through a chain of
  references, back to an object that is being validated makes the validation end with
  \<open>RecursionLimitExceeded\<close>. The source has no recursion guard. Claim C1, as amended:
  let \<open>S\<close> be a set of image objects such that the validation of each of them reaches
  its \<open>Mask\<close> entry and that entry resolves to an object of \<open>S\<close> again (any cycle
  of masks is such a set). Then the validation of an object of \<open>S\<close> does not return:
  whatever nesting depth is allowed, it is used up.
\<close>

theorem validateImageStreamDict_mask_cycle_never_returns:
  assumes inv: "\<forall>sd\<in>S. \<exists>sd'\<in>S. reachesMask x sd sd'" and "sd \<in> S"
  shows "validateImageStreamDict n x sd alt = OutOfFuel"
  using \<open>sd \<in> S\<close>
proof (induction n arbitrary: sd alt)
  case 0
  show ?case by simp
next
  case (Suc n)
  from inv Suc.prems obtain sd' where "sd' \<in> S" and r: "reachesMask x sd sd'" by blast
  from Suc.IH [OF \<open>sd' \<in> S\<close>] have "validateImageStreamDict n x sd' False = OutOfFuel" .
  with r show ?case by (simp add: reachesMask_step)
qed

theorem validateImageStreamDict_mask_cycle_witness:
  "reachesMask selfMaskEnv selfMaskImage selfMaskImage
   \<and> selfMaskImage \<in> {selfMaskImage}
   \<and> validateImageStreamDict 5 selfMaskEnv selfMaskImage False = OutOfFuel"
proof -
  have inv: "\<forall>sd\<in>{selfMaskImage}. \<exists>sd'\<in>{selfMaskImage}. reachesMask selfMaskEnv sd sd'"
    using selfMask_reaches by simp
  have mem: "selfMaskImage \<in> {selfMaskImage}" by simp
  show ?thesis
    using selfMask_reaches mem
      validateImageStreamDict_mask_cycle_never_returns [OF inv mem, of 5 False]
    by simp
qed

text \<open>
  The claim as stated fails on the image object 1 whose \<open>Mask\<close> is a reference to
  object 1: no nesting depth is enough for the validation to return, so it never ends
  with \<open>RecursionLimitExceeded\<close>.
\<close>

theorem selfMask_counterexample:
  "\<not> (\<exists>n. validateImageStreamDict n selfMaskEnv selfMaskImage False \<noteq> OutOfFuel)"
proof -
  have "validateImageStreamDict n selfMaskEnv selfMaskImage alt = OutOfFuel" for n alt
  proof (induction n arbitrary: alt)
    case 0
    show ?case by simp
  next
    case (Suc n)
    have "validateImageStreamDict n selfMaskEnv selfMaskImage False = OutOfFuel"
      by (rule Suc)
    with selfMask_reaches show ?case by (simp add: reachesMask_step)
  qed
  then show ?thesis by simp
qed

subsection \<open>OPI version dictionaries\<close>

lemma Len_1_entries:
  assumes "Len dict = 1"
  shows "\<exists>k obj. entries dict = [(k, obj)] \<and> Find dict k = Some obj
           \<and> (\<forall>k'. Find dict k' \<noteq> None \<longrightarrow> k' = k)"
proof -
  from assms obtain k where k: "remdups (map fst dict) = [k]"
    by (auto simp: Len_def length_Suc_conv)
  then have s: "set (map fst dict) = {k}"
    by (metis set_remdups list.simps(15) empty_set)
  then have "k \<in> fst ` set dict" by simp
  then obtain obj where o: "map_of dict k = Some obj"
    by (metis domD dom_map_of_conv_image_fst)
  have "\<forall>k'. Find dict k' \<noteq> None \<longrightarrow> k' = k"
    using s by (metis Find_def domIff dom_map_of_conv_image_fst list.set_map singletonD)
  with k o show ?thesis by (simp add: entries_def Find_def)
qed

lemma unit_case: "(case (r :: error + unit) of Inl e \<Rightarrow> Inl e | Inr _ \<Rightarrow> Inr ()) = r"
  by (cases r) simp_all

lemma not_isl_unit: "\<not> isl (r :: error + unit) \<Longrightarrow> r = Inr ()"
  by (cases r) simp_all

lemma andThen_Inr_iff: "andThen m k = Inr u \<longleftrightarrow> (\<not> isl m \<and> k = Inr u)"
  by (cases m) (simp_all add: andThen_def)

lemma validateOPIVersionDict_single:
  assumes "Len dict = 1" and "Find dict k = Some obj"
  shows "validateOPIVersionDict x dict = validateOPIVersionEntries x [(k, obj)]"
proof -
  from Len_1_entries [OF assms(1)] obtain k' obj' where
    e: "entries dict = [(k', obj')]" and f: "Find dict k' = Some obj'"
    and u: "\<forall>k''. Find dict k'' \<noteq> None \<longrightarrow> k'' = k'" by blast
  from u assms(2) have "k = k'" by simp
  with f assms(2) have "obj = obj'" by simp
  with e \<open>k = k'\<close> assms(1) show ?thesis by (simp add: validateOPIVersionDict_def)
qed

lemma validateOPIVersionDict_schema:
  assumes "\<not> (Len dict = 1 \<and> (Find dict ''1.3'' \<noteq> None \<or> Find dict ''2.0'' \<noteq> None))"
  shows "validateOPIVersionDict x dict = Inl SchemaViolation"
proof (cases "Len dict = 1")
  case False
  then show ?thesis by (simp add: validateOPIVersionDict_def)
next
  case True
  from Len_1_entries [OF True] obtain k obj where
    e: "entries dict = [(k, obj)]" and f: "Find dict k = Some obj" by blast
  from assms True f have "k \<noteq> ''1.3'' \<and> k \<noteq> ''2.0''" by auto
  with e True show ?thesis by (simp add: validateOPIVersionDict_def memberOf_def)
qed

lemma validateOPIVersionDict_13:
  assumes "Len dict = 1" and "Find dict ''1.3'' = Some obj"
  shows "validateOPIVersionDict x dict =
           (case DereferenceDict x obj of
              Inl e \<Rightarrow> Inl e
            | Inr None \<Rightarrow> Inr ()
            | Inr (Some d) \<Rightarrow> validateOPIDictV13 x d)"
  by (simp add: validateOPIVersionDict_single [OF assms] memberOf_def unit_case
      split: sum.splits option.splits)

lemma validateOPIVersionDict_20:
  assumes "Len dict = 1" and "Find dict ''2.0'' = Some obj"
  shows "validateOPIVersionDict x dict =
           (case DereferenceDict x obj of
              Inl e \<Rightarrow> Inl e
            | Inr None \<Rightarrow> Inr ()
            | Inr (Some d) \<Rightarrow> validateOPIDictV20 x d)"
  by (simp add: validateOPIVersionDict_single [OF assms] memberOf_def unit_case
      split: sum.splits option.splits)

lemma validateOPIDictV20_Inks:
  assumes "validateOPIDictV20 x d = Inr ()" and "Find d ''Inks'' = Some obj"
    and "Dereference x obj = Inr v"
  shows "v = PDFNil \<or> v = PDFName ''full_color'' \<or> v = PDFName ''registration''
         \<or> (\<exists>a. v = PDFArray a)"
proof -
  from assms(1) have "validateOPIDictInks x obj = Inr ()"
    unfolding validateOPIDictV20_def Let_def
    by (simp add: andThen_Inr_iff assms(2) not_isl_unit)
  with assms(3) show ?thesis
    by (auto simp: validateOPIDictInks_def split: if_splits PDFObject.splits)
qed

lemma validateKindEntry_cong:
  assumes "Find d' k = Find d k"
  shows "validateKindEntry x d' dn k r sv kind v = validateKindEntry x d dn k r sv kind v"
  by (simp add: validateKindEntry_def assms)

lemma validateOPIDictV13_ignores_Inks:
  assumes "\<forall>k. k \<noteq> ''Inks'' \<longrightarrow> Find d' k = Find d k"
  shows "validateOPIDictV13 x d' = validateOPIDictV13 x d"
proof -
  have f: "Find d' k = Find d k" if "k \<noteq> ''Inks''" for k using assms that by simp
  have "validateOPIDictV13Part1 x d' n = validateOPIDictV13Part1 x d n" for n
    unfolding validateOPIDictV13Part1_def validateNameEntry_def validateNumberEntry_def
      validateFileSpecEntry_def validateStringEntry_def validateIntegerArrayEntry_def
      validateRectangleEntry_def validateNumberArrayEntry_def
    by (simp add: validateKindEntry_cong [of d' _ d] f)
  moreover have "validateOPIDictV13Part2 x d' n = validateOPIDictV13Part2 x d n" for n
    unfolding validateOPIDictV13Part2_def validateNameEntry_def validateNumberEntry_def
      validateArrayEntry_def validateBooleanEntry_def validateIntegerArrayEntry_def
      validateNumberArrayEntry_def
    by (simp add: validateKindEntry_cong [of d' _ d] f)
  ultimately show ?thesis by (simp add: validateOPIDictV13_def)
qed

lemma opiDictV13BadInks_valid: "validateOPIDictV13 plainEnv opiDictV13BadInks = Inr ()"
  by (simp add: validateOPIDictV13_def validateOPIDictV13Part1_def validateOPIDictV13Part2_def
      plainEnv_def tableEnv_def opiDictV13BadInks_def prim_defs)

lemma opiDictV20_registration_valid:
  "validateOPIDictV20 plainEnv (opiDictV20 (PDFName ''registration'')) = Inr ()"
  by (simp add: validateOPIDictV20_def validateOPIDictInks_def plainEnv_def tableEnv_def
      opiDictV20_def prim_defs)

text \<open>
  Claim C2, as amended. An OPI version dictionary fails with \<open>SchemaViolation\<close> unless
  it has exactly one entry and the key of that entry is "1.3" or "2.0". The value of
  the entry "1.3", when it resolves to a dictionary, is validated against the 1.3
  table, and the value of the entry "2.0" against the 2.0 table (a value that resolves
  to the null object is accepted, and an error of resolving is returned). The
  \<open>Inks\<close> rule belongs to the 2.0 table: a 2.0 dictionary that validates has an
  \<open>Inks\<close> entry, when present, that resolves to the null object, to the name
  \<open>full_color\<close> or \<open>registration\<close>, or to an array. The 1.3 table does not look at
  \<open>Inks\<close>: two dictionaries that differ in that entry only validate alike.
\<close>

theorem validateOPIVersionDict_rules:
  "(\<not> (Len dict = 1 \<and> (Find dict ''1.3'' \<noteq> None \<or> Find dict ''2.0'' \<noteq> None))
      \<longrightarrow> validateOPIVersionDict x dict = Inl SchemaViolation)
   \<and> (Len dict = 1 \<and> Find dict ''1.3'' = Some obj
      \<longrightarrow> validateOPIVersionDict x dict =
            (case DereferenceDict x obj of
               Inl e \<Rightarrow> Inl e
             | Inr None \<Rightarrow> Inr ()
             | Inr (Some d) \<Rightarrow> validateOPIDictV13 x d))
   \<and> (Len dict = 1 \<and> Find dict ''2.0'' = Some obj
      \<longrightarrow> validateOPIVersionDict x dict =
            (case DereferenceDict x obj of
               Inl e \<Rightarrow> Inl e
             | Inr None \<Rightarrow> Inr ()
             | Inr (Some d) \<Rightarrow> validateOPIDictV20 x d))
   \<and> (validateOPIDictV20 x d20 = Inr () \<and> Find d20 ''Inks'' = Some inks
        \<and> Dereference x inks = Inr v
      \<longrightarrow> v = PDFNil \<or> v = PDFName ''full_color'' \<or> v = PDFName ''registration''
            \<or> (\<exists>a. v = PDFArray a))
   \<and> ((\<forall>k. k \<noteq> ''Inks'' \<longrightarrow> Find d13' k = Find d13 k)
      \<longrightarrow> validateOPIDictV13 x d13' = validateOPIDictV13 x d13)"
  using validateOPIVersionDict_schema [of dict x] validateOPIVersionDict_13 [of dict obj x]
    validateOPIVersionDict_20 [of dict obj x] validateOPIDictV20_Inks [of x d20 inks v]
    validateOPIDictV13_ignores_Inks [of d13' d13 x]
  by blast

theorem validateOPIVersionDict_rules_witness:
  "validateOPIVersionDict plainEnv [] = Inl SchemaViolation
   \<and> validateOPIVersionDict plainEnv [(''1.0'', PDFDict opiDictV13BadInks)] = Inl SchemaViolation
   \<and> validateOPIVersionDict plainEnv [(''1.3'', PDFDict opiDictV13BadInks)]
       = validateOPIDictV13 plainEnv opiDictV13BadInks
   \<and> validateOPIVersionDict plainEnv [(''2.0'', PDFDict (opiDictV20 (PDFName ''registration'')))]
       = validateOPIDictV20 plainEnv (opiDictV20 (PDFName ''registration''))
   \<and> validateOPIDictV20 plainEnv (opiDictV20 (PDFName ''registration'')) = Inr ()
   \<and> validateOPIDictV13 plainEnv (AList.delete ''Inks'' opiDictV13BadInks)
       = validateOPIDictV13 plainEnv opiDictV13BadInks"
proof -
  have 1: "validateOPIVersionDict plainEnv [] = Inl SchemaViolation"
    using validateOPIVersionDict_rules [of "[]" plainEnv]
    by (simp add: Len_def)
  have 2: "validateOPIVersionDict plainEnv [(''1.0'', PDFDict opiDictV13BadInks)]
            = Inl SchemaViolation"
    using validateOPIVersionDict_rules [of "[(''1.0'', PDFDict opiDictV13BadInks)]" plainEnv]
    by (simp add: Len_def Find_def)
  have 3: "validateOPIVersionDict plainEnv [(''1.3'', PDFDict opiDictV13BadInks)]
            = validateOPIDictV13 plainEnv opiDictV13BadInks"
    using validateOPIVersionDict_rules [of "[(''1.3'', PDFDict opiDictV13BadInks)]" plainEnv
        "PDFDict opiDictV13BadInks"]
    by (simp add: Len_def Find_def DereferenceDict_def Dereference_def)
  have 4: "validateOPIVersionDict plainEnv
             [(''2.0'', PDFDict (opiDictV20 (PDFName ''registration'')))]
            = validateOPIDictV20 plainEnv (opiDictV20 (PDFName ''registration''))"
    using validateOPIVersionDict_rules
        [of "[(''2.0'', PDFDict (opiDictV20 (PDFName ''registration'')))]" plainEnv
         "PDFDict (opiDictV20 (PDFName ''registration''))"]
    by (simp add: Len_def Find_def DereferenceDict_def Dereference_def)
  have 5: "validateOPIDictV13 plainEnv (AList.delete ''Inks'' opiDictV13BadInks)
            = validateOPIDictV13 plainEnv opiDictV13BadInks"
    using validateOPIVersionDict_rules
        [where ?d13'="AList.delete ''Inks'' opiDictV13BadInks" and ?d13.0=opiDictV13BadInks
           and x=plainEnv]
    by (simp add: Find_def delete_conv')
  from 1 2 3 4 5 opiDictV20_registration_valid show ?thesis by simp
qed

text \<open>
  The claim as stated puts the \<open>Inks\<close> rule under the 1.3 table. An OPI version
  dictionary whose entry "1.3" holds a dictionary with \<open>Inks\<close> an integer, neither
  a name nor an array, validates.
\<close>

theorem opiDictV13_Inks_counterexample:
  "validateOPIVersionDict plainEnv [(''1.3'', PDFDict opiDictV13BadInks)] = Inr ()
   \<and> Find opiDictV13BadInks ''Inks'' = Some (PDFInteger 5)"
proof -
  have "validateOPIVersionDict plainEnv [(''1.3'', PDFDict opiDictV13BadInks)] = Inr ()"
    by (simp add: validateOPIVersionDict_def Len_def entries_def memberOf_def
        DereferenceDict_def Dereference_def opiDictV13BadInks_valid)
  moreover have "Find opiDictV13BadInks ''Inks'' = Some (PDFInteger 5)"
    by (simp add: Find_def opiDictV13BadInks_def)
  ultimately show ?thesis by simp
qed

subsection \<open>The Mask entry of an image object\<close>

lemma maskImage_Part1:
  "validateImageStreamDictPart1 plainEnv (maskImage, []) dn = Inr True"
  by (simp add: validateImageStreamDictPart1_def prim_defs plainEnv_def tableEnv_def
      maskImage_def)

lemma maskImage_Part2:
  "validateImageStreamDictPart2 rec plainEnv (maskImage, []) dn True False = Ok"
  by (simp add: validateImageStreamDictPart2_def validateAlternateImageStreamDicts_def
      lift_def HasSoleFilterNamed_def prim_defs plainEnv_def tableEnv_def maskImage_def)

lemma maskImage_Rest:
  "validateImageStreamDictRest rec plainEnv (maskImage, []) dn = Ok"
  by (simp add: validateImageStreamDictRest_def validateEntryOPI_def validateEntryOC_def
      lift_def prim_defs plainEnv_def tableEnv_def maskImage_def)

lemma maskImage_valid: "validateImageStreamDict (Suc n) plainEnv (maskImage, []) False = Ok"
  by (simp add: validateImageStreamDictBody_def maskImage_Part1 maskImage_Part2
      maskImage_Rest)

lemma maskedImage_Part1:
  "validateImageStreamDictPart1 plainEnv (maskedImage m) dn = Inr False"
  by (simp add: validateImageStreamDictPart1_def prim_defs plainEnv_def tableEnv_def
      maskedImage_def HasSoleFilterNamed_def ExcludePatternCS_def)

lemma maskedImage_BitsPerComponent:
  "validateIntegerEntry plainEnv (fst (maskedImage m)) dn ''BitsPerComponent''
     (if HasSoleFilterNamed (maskedImage m) JPX then OPTIONAL else REQUIRED) V10 (\<lambda>_. True)
   = Inr (Some 8)"
  by (simp add: prim_defs plainEnv_def tableEnv_def maskedImage_def HasSoleFilterNamed_def)

lemma maskedImage_Intent:
  "validateNameEntry plainEnv (fst (maskedImage m)) dn ''Intent'' OPTIONAL V11 v = Inr None"
  by (simp add: prim_defs plainEnv_def tableEnv_def maskedImage_def)

lemma maskedImage_Mask:
  "m \<noteq> PDFNil \<Longrightarrow> \<not> (\<exists>n g. m = PDFIndirectRef n g) \<Longrightarrow>
   validateEntry plainEnv (fst (maskedImage m)) dn ''Mask'' OPTIONAL V13 = Inr (Some m)"
  by (cases m) (simp_all add: prim_defs plainEnv_def tableEnv_def maskedImage_def)

lemma maskedImage_Part2_after_Mask:
  assumes "validateMaskEntry rec plainEnv (fst (maskedImage m)) dn ''Mask'' OPTIONAL V13 = Ok"
  shows "validateImageStreamDictPart2 rec plainEnv (maskedImage m) dn False False = Ok"
proof -
  have "validateArrayEntry plainEnv (fst (maskedImage m)) dn ''Alternates'' False V13
          (\<lambda>_. True) = Inr None"
    by (simp add: prim_defs plainEnv_def tableEnv_def maskedImage_def)
  moreover have "validateNumberArrayEntry plainEnv (fst (maskedImage m)) dn ''Decode'' False
          V10 (\<lambda>_. True) = Inr None"
    by (simp add: prim_defs plainEnv_def tableEnv_def maskedImage_def)
  moreover have "validateBooleanEntry plainEnv (fst (maskedImage m)) dn ''Interpolate'' False
          V10 (\<lambda>_. True) = Inr None"
    by (simp add: prim_defs plainEnv_def tableEnv_def maskedImage_def)
  moreover have "validateIntegerEntry plainEnv (fst (maskedImage m)) dn ''BitsPerComponent''
          True V10 (\<lambda>_. True) = Inr (Some 8)"
    by (simp add: prim_defs plainEnv_def tableEnv_def maskedImage_def)
  moreover have "validateNameEntry plainEnv (fst (maskedImage m)) dn ''Intent'' False V11 v
          = Inr None" for v
    by (simp add: prim_defs plainEnv_def tableEnv_def maskedImage_def)
  moreover have "\<not> HasSoleFilterNamed (maskedImage m) JPX"
    by (simp add: HasSoleFilterNamed_def maskedImage_def)
  moreover have "validateMaskEntry rec plainEnv (fst (maskedImage m)) dn ''Mask'' False V13 = Ok"
    using assms by (simp add: OPTIONAL_def)
  ultimately show ?thesis
    by (simp add: validateImageStreamDictPart2_def validateAlternateImageStreamDicts_def
        lift_def OPTIONAL_def REQUIRED_def)
qed

lemma maskedImage_Rest:
  "validateImageStreamDictRest rec plainEnv (maskedImage m) dn = Ok"
  by (simp add: validateImageStreamDictRest_def validateEntryOPI_def validateEntryOC_def
      lift_def prim_defs plainEnv_def tableEnv_def maskedImage_def)

text \<open>
  Claim C3, as amended. Take an image object that is not an image mask, whose phase 1
  and whose \<open>BitsPerComponent\<close> and \<open>Intent\<close> entries pass, and whose \<open>Mask\<close>
  entry is present, legal for the version and resolves to a value that is not null.
  That value must be an array, which is not descended into, or a stream dictionary
  whose \<open>Type\<close>, if a name, is \<open>XObject\<close> and whose \<open>Subtype\<close> is \<open>Image\<close>,
  which is validated as an image object in its own right by the same routine (not as
  an alternate, and with nothing that keeps it from being an image mask or from having
  a \<open>Mask\<close> of its own); any other kind of value is a \<open>TypeMismatch\<close>. The verdict
  \<open>M\<close> on the entry, when it is not success, is the result of validating the image.
\<close>

theorem validateImageStreamDict_Mask_entry:
  assumes part1: "validateImageStreamDictPart1 x sd ''imageStreamDict'' = Inr False"
    and bpc: "passes (validateIntegerEntry x (fst sd) ''imageStreamDict'' ''BitsPerComponent''
                  (if HasSoleFilterNamed sd JPX then OPTIONAL else REQUIRED) V10 (\<lambda>_. True))"
    and intent: "passes (validateNameEntry x (fst sd) ''imageStreamDict'' ''Intent'' OPTIONAL V11
                  (\<lambda>s. memberOf s [''AbsoluteColorimetric'', ''RelativeColorimetric'',
                                     ''Saturation'', ''Perceptual'']))"
    and mask: "validateEntry x (fst sd) ''imageStreamDict'' ''Mask'' OPTIONAL V13
                 = Inr (Some obj)"
    and M: "M = (case obj of
                   PDFStreamDict d f \<Rightarrow>
                     if (Type d = None \<or> Type d = Some ''XObject'') \<and> Subtype d = Some ''Image''
                     then validateImageStreamDict n x (d, f) False
                     else Fail ConstraintViolation
                 | PDFArray a \<Rightarrow> Ok
                 | _ \<Rightarrow> Fail TypeMismatch)"
  shows "validateMaskEntry (validateImageStreamDict n x) x (fst sd) ''imageStreamDict'' ''Mask''
           OPTIONAL V13 = M
         \<and> (M \<noteq> Ok \<longrightarrow> validateImageStreamDict (Suc n) x sd alt = M)"
proof -
  have 1: "validateMaskEntry (validateImageStreamDict n x) x (fst sd) ''imageStreamDict''
             ''Mask'' OPTIONAL V13 = M"
    unfolding M validateMaskEntry_def mask
    by (auto simp: validateMaskStreamDict_def isNoAlternateImageStreamDict_def
        split: PDFObject.splits)
  have 2: "validateImageStreamDictPart2 (validateImageStreamDict n x) x sd ''imageStreamDict''
             False alt = M" if "M \<noteq> Ok"
    using that 1 bpc intent
    by (cases M) (simp_all add: validateImageStreamDictPart2_def lift_passes)
  have "validateImageStreamDict (Suc n) x sd alt = M" if "M \<noteq> Ok"
    using 2 [OF that] that part1
    by (cases M) (simp_all add: validateImageStreamDictBody_def)
  with 1 show ?thesis by simp
qed

theorem validateImageStreamDict_Mask_entry_witness:
  "validateImageStreamDictPart1 plainEnv (maskedImage (PDFInteger 5)) ''imageStreamDict''
     = Inr False
   \<and> validateEntry plainEnv (fst (maskedImage (PDFInteger 5))) ''imageStreamDict'' ''Mask''
       OPTIONAL V13 = Inr (Some (PDFInteger 5))
   \<and> validateImageStreamDict (Suc 0) plainEnv (maskedImage (PDFInteger 5)) False
       = Fail TypeMismatch
   \<and> validateMaskEntry (validateImageStreamDict 0 plainEnv) plainEnv
       (fst (maskedImage (PDFArray [PDFInteger 0, PDFInteger 1]))) ''imageStreamDict'' ''Mask''
       OPTIONAL V13 = Ok"
proof -
  have m: "validateEntry plainEnv (fst (maskedImage (PDFInteger 5))) ''imageStreamDict''
             ''Mask'' OPTIONAL V13 = Inr (Some (PDFInteger 5))"
    by (simp add: maskedImage_Mask)
  have a: "validateEntry plainEnv (fst (maskedImage (PDFArray [PDFInteger 0, PDFInteger 1])))
             ''imageStreamDict'' ''Mask'' OPTIONAL V13
           = Inr (Some (PDFArray [PDFInteger 0, PDFInteger 1]))"
    by (simp add: maskedImage_Mask)
  have p: "passes (validateIntegerEntry plainEnv (fst (maskedImage m)) ''imageStreamDict''
             ''BitsPerComponent''
             (if HasSoleFilterNamed (maskedImage m) JPX then OPTIONAL else REQUIRED) V10
             (\<lambda>_. True))" for m
    by (simp add: maskedImage_BitsPerComponent passes_def)
  have i: "passes (validateNameEntry plainEnv (fst (maskedImage m)) ''imageStreamDict''
             ''Intent'' OPTIONAL V11 v)" for m v
    by (simp add: maskedImage_Intent passes_def)
  have "validateImageStreamDict (Suc 0) plainEnv (maskedImage (PDFInteger 5)) False
          = Fail TypeMismatch"
    using validateImageStreamDict_Mask_entry
      [OF maskedImage_Part1 p i m, of "Fail TypeMismatch" 0 False]
    by simp
  moreover have "validateMaskEntry (validateImageStreamDict 0 plainEnv) plainEnv
       (fst (maskedImage (PDFArray [PDFInteger 0, PDFInteger 1]))) ''imageStreamDict'' ''Mask''
       OPTIONAL V13 = Ok"
    using validateImageStreamDict_Mask_entry
      [OF maskedImage_Part1 p i a, of Ok 0 False]
    by simp
  ultimately show ?thesis using m maskedImage_Part1 by simp
qed

text \<open>
  The claim as stated forbids the nested image from being an image mask. An image
  object whose \<open>Mask\<close> is a stream with \<open>ImageMask\<close> true validates.
\<close>

theorem maskImage_counterexample:
  "validateImageStreamDict 2 plainEnv (maskedImage (PDFStreamDict maskImage [])) False = Ok
   \<and> Find maskImage ''ImageMask'' = Some (PDFBoolean True)"
proof -
  have t: "Type maskImage = Some ''XObject''" and s: "Subtype maskImage = Some ''Image''"
    by (simp_all add: Type_def Subtype_def NameEntry_def Find_def maskImage_def)
  have "validateMaskEntry (validateImageStreamDict (Suc 0) plainEnv) plainEnv
          (fst (maskedImage (PDFStreamDict maskImage []))) ''imageStreamDict'' ''Mask''
          OPTIONAL V13 = Ok"
    by (simp add: validateMaskEntry_def maskedImage_Mask validateMaskStreamDict_def t s
        maskImage_valid isNoAlternateImageStreamDict_def
        del: validateImageStreamDict.simps)
  then have "validateImageStreamDict (Suc (Suc 0)) plainEnv
               (maskedImage (PDFStreamDict maskImage [])) False = Ok"
    by (simp add: validateImageStreamDictBody_def maskedImage_Part1
        maskedImage_Part2_after_Mask maskedImage_Rest)
  moreover have "Find maskImage ''ImageMask'' = Some (PDFBoolean True)"
    by (simp add: Find_def maskImage_def)
  ultimately show ?thesis by (simp add: numeral_2_eq_2)
qed

subsection \<open>Alternate images\<close>

lemma thenO_Ok_right [simp]: "thenO r Ok = r"
  by (cases r) simp_all

lemma validateImageStreamDictBody_alternate_cong:
  assumes "\<forall>k. k \<noteq> ''Alternates'' \<longrightarrow> Find d' k = Find d k"
  shows "validateImageStreamDictBody rec x (d', f) True = validateImageStreamDictBody rec x (d, f) True"
proof -
  have e: "Find d' k = Find d k" if "k \<noteq> ''Alternates''" for k using assms that by simp
  have 1: "validateImageStreamDictPart1 x (d', f) n = validateImageStreamDictPart1 x (d, f) n"
    for n
    unfolding validateImageStreamDictPart1_def validateIntegerEntry_def
      validateBooleanEntry_def validateColorSpaceEntry_def HasSoleFilterNamed_def
    by (simp add: validateKindEntry_cong [of d' _ d] e Let_def
        cong del: sum.case_cong_weak option.case_cong_weak if_weak_cong)
  have 2: "validateImageStreamDictPart2 rec x (d', f) n m True
             = validateImageStreamDictPart2 rec x (d, f) n m True" for n m
    unfolding validateImageStreamDictPart2_def validateIntegerEntry_def validateNameEntry_def
      validateMaskEntry_def validateEntry_def validateNumberArrayEntry_def
      validateBooleanEntry_def HasSoleFilterNamed_def
    by (simp add: validateKindEntry_cong [of d' _ d] e Let_def
        cong del: sum.case_cong_weak option.case_cong_weak if_weak_cong)
  have 3: "validateImageStreamDictRest rec x (d', f) n = validateImageStreamDictRest rec x (d, f) n"
    for n
    unfolding validateImageStreamDictRest_def validateStreamDictEntry_def
      validateIntegerEntry_def validateNameEntry_def validateStringEntry_def
      validateEntryOPI_def validateEntryOC_def validateMetadata_def validateDictEntry_def
    by (simp add: validateKindEntry_cong [of d' _ d] e Let_def
        cong del: sum.case_cong_weak option.case_cong_weak if_weak_cong)
  show ?thesis
    by (simp add: validateImageStreamDictBody_def 1 2 3 Let_def cong del: sum.case_cong_weak)
qed

lemma validateAlternates_all_valid:
  assumes "\<forall>obj\<in>set arr. validateStreamDict x obj = Inr None
             \<or> (\<exists>sd. validateStreamDict x obj = Inr (Some sd) \<and> rec sd True = Ok)"
  shows "validateAlternates rec x arr = Ok"
  using assms
  by (induction arr) (auto simp: isAlternateImageStreamDict_def)

lemma plainImage_agrees:
  "\<forall>k. k \<noteq> ''Alternates'' \<longrightarrow> Find plainImage k = Find (fst (imageWithAlternates alts)) k"
  by (simp add: Find_def imageWithAlternates_def map_add_def map_of_append
      split: option.splits)

lemma imageWithAlternates_Part1:
  "validateImageStreamDictPart1 plainEnv (imageWithAlternates alts) dn = Inr False"
  by (simp add: validateImageStreamDictPart1_def prim_defs plainEnv_def tableEnv_def
      imageWithAlternates_def plainImage_def HasSoleFilterNamed_def ExcludePatternCS_def)

lemma imageWithAlternates_Part2:
  "validateImageStreamDictPart2 rec plainEnv (imageWithAlternates alts) dn False alt
     = (if alt then Ok else validateAlternates rec plainEnv alts)"
  by (simp add: validateImageStreamDictPart2_def validateAlternateImageStreamDicts_def
      validateMaskEntry_def lift_def prim_defs plainEnv_def tableEnv_def
      imageWithAlternates_def plainImage_def HasSoleFilterNamed_def)

lemma imageWithAlternates_Rest:
  "validateImageStreamDictRest rec plainEnv (imageWithAlternates alts) dn = Ok"
  by (simp add: validateImageStreamDictRest_def validateEntryOPI_def validateEntryOC_def
      lift_def prim_defs plainEnv_def tableEnv_def imageWithAlternates_def plainImage_def)

lemma imageWithAlternates_valid:
  "validateImageStreamDict (Suc n) plainEnv (imageWithAlternates alts) alt
     = (if alt then Ok else validateAlternates (validateImageStreamDict n plainEnv) plainEnv alts)"
  by (simp add: validateImageStreamDictBody_def imageWithAlternates_Part1
      imageWithAlternates_Part2 imageWithAlternates_Rest)

text \<open>
  Claim C4, as amended. The \<open>Alternates\<close> entry of an image object that is validated
  as an alternate is not examined: two stream dictionaries that differ in that entry
  only validate alike as alternates, so an alternate with alternates of its own is not
  rejected for it. An \<open>Alternates\<close> entry that is a version-legal array whose
  elements resolve to the null object or to stream dictionaries that validate as
  alternates passes.
\<close>

theorem validateImageStreamDict_alternates:
  "((\<forall>k. k \<noteq> ''Alternates'' \<longrightarrow> Find d' k = Find d k)
      \<longrightarrow> validateImageStreamDict n x (d', f) True = validateImageStreamDict n x (d, f) True)
   \<and> (validateArrayEntry x dict dn ''Alternates'' OPTIONAL V13 (\<lambda>_. True) = Inr (Some arr)
       \<and> (\<forall>obj\<in>set arr. validateStreamDict x obj = Inr None
             \<or> (\<exists>sd. validateStreamDict x obj = Inr (Some sd)
                      \<and> validateImageStreamDict n x sd True = Ok))
      \<longrightarrow> validateAlternateImageStreamDicts (validateImageStreamDict n x) x dict dn
            ''Alternates'' OPTIONAL V13 = Ok)"
proof (intro conjI impI)
  assume a: "\<forall>k. k \<noteq> ''Alternates'' \<longrightarrow> Find d' k = Find d k"
  show "validateImageStreamDict n x (d', f) True = validateImageStreamDict n x (d, f) True"
  proof (cases n)
    case 0
    then show ?thesis by simp
  next
    case (Suc m)
    then show ?thesis
      by (simp add: validateImageStreamDictBody_alternate_cong [OF a])
  qed
next
  assume b: "validateArrayEntry x dict dn ''Alternates'' OPTIONAL V13 (\<lambda>_. True) = Inr (Some arr)
       \<and> (\<forall>obj\<in>set arr. validateStreamDict x obj = Inr None
             \<or> (\<exists>sd. validateStreamDict x obj = Inr (Some sd)
                      \<and> validateImageStreamDict n x sd True = Ok))"
  then have "validateAlternates (validateImageStreamDict n x) x arr = Ok"
    by (intro validateAlternates_all_valid) simp
  with b show "validateAlternateImageStreamDicts (validateImageStreamDict n x) x dict dn
            ''Alternates'' OPTIONAL V13 = Ok"
    by (simp add: validateAlternateImageStreamDicts_def)
qed

theorem validateImageStreamDict_alternates_witness:
  "validateImageStreamDict 1 plainEnv (plainImage, []) True = Ok
   \<and> validateAlternateImageStreamDicts (validateImageStreamDict 1 plainEnv) plainEnv
       (fst (imageWithAlternates [PDFStreamDict plainImage [], PDFNil])) ''imageStreamDict''
       ''Alternates'' OPTIONAL V13 = Ok
   \<and> validateImageStreamDict 2 plainEnv
       (imageWithAlternates [PDFStreamDict plainImage [], PDFNil]) False = Ok"
proof -
  let ?alts = "[PDFStreamDict plainImage [], PDFNil]"
  have p: "validateImageStreamDict 1 plainEnv (plainImage, []) True = Ok"
    using validateImageStreamDict_alternates
      [of plainImage "fst (imageWithAlternates [])" 1 plainEnv "[]"]
      plainImage_agrees [of "[]"] imageWithAlternates_valid [of 0 "[]" True]
    by (simp add: imageWithAlternates_def)
  have arr: "validateArrayEntry plainEnv (fst (imageWithAlternates ?alts)) ''imageStreamDict''
               ''Alternates'' OPTIONAL V13 (\<lambda>_. True) = Inr (Some ?alts)"
    by (simp add: prim_defs plainEnv_def tableEnv_def imageWithAlternates_def plainImage_def)
  have s1: "validateStreamDict plainEnv (PDFStreamDict plainImage []) = Inr (Some (plainImage, []))"
    and s2: "validateStreamDict plainEnv PDFNil = Inr None"
    by (simp_all add: validateStreamDict_def DereferenceStreamDict_def Dereference_def)
  have a: "validateAlternateImageStreamDicts (validateImageStreamDict 1 plainEnv) plainEnv
       (fst (imageWithAlternates ?alts)) ''imageStreamDict'' ''Alternates'' OPTIONAL V13 = Ok"
    using validateImageStreamDict_alternates
      [of _ _ 1 plainEnv _ "fst (imageWithAlternates ?alts)" "''imageStreamDict''" ?alts]
      arr p s1 s2
    by simp
  have "validateAlternates (validateImageStreamDict 1 plainEnv) plainEnv ?alts = Ok"
    using a arr by (simp add: validateAlternateImageStreamDicts_def)
  then have "validateImageStreamDict (Suc (Suc 0)) plainEnv (imageWithAlternates ?alts) False = Ok"
    by (simp only: imageWithAlternates_valid One_nat_def if_False)
  with p a show ?thesis by (simp add: numeral_2_eq_2)
qed

text \<open>
  The claim as stated says that alternates with non-empty alternates of their own make
  the validation fail. An image object whose only alternate has itself an alternate
  validates.
\<close>

theorem nestedAlternates_counterexample:
  "validateImageStreamDict 2 plainEnv
     (imageWithAlternates
        [PDFStreamDict (fst (imageWithAlternates [PDFStreamDict plainImage []])) []]) False = Ok
   \<and> Find (fst (imageWithAlternates [PDFStreamDict plainImage []])) ''Alternates''
       = Some (PDFArray [PDFStreamDict plainImage []])"
proof -
  let ?inner = "imageWithAlternates [PDFStreamDict plainImage []]"
  have i: "validateImageStreamDict (Suc 0) plainEnv ?inner True = Ok"
    by (simp only: imageWithAlternates_valid if_True)
  have "validateAlternates (validateImageStreamDict (Suc 0) plainEnv) plainEnv
          [PDFStreamDict (fst ?inner) []] = Ok"
    using i
    by (simp add: validateStreamDict_def DereferenceStreamDict_def Dereference_def
        isAlternateImageStreamDict_def imageWithAlternates_def
        del: validateImageStreamDict.simps)
  then have "validateImageStreamDict (Suc (Suc 0)) plainEnv
          (imageWithAlternates [PDFStreamDict (fst ?inner) []]) False = Ok"
    by (simp only: imageWithAlternates_valid if_False)
  moreover have "Find (fst ?inner) ''Alternates'' = Some (PDFArray [PDFStreamDict plainImage []])"
    by (simp add: Find_def imageWithAlternates_def plainImage_def)
  ultimately show ?thesis by (simp add: numeral_2_eq_2)
qed

subsection \<open>BitsPerComponent\<close>

lemma lift_Ok_iff: "lift r = Ok \<longleftrightarrow> \<not> isl r"
  by (cases r) (simp_all add: lift_def)

lemma thenO_Ok_iff: "thenO r k = Ok \<longleftrightarrow> r = Ok \<and> k = Ok"
  by (cases r) simp_all

lemma validateImageStreamDict_BitsPerComponent_fails:
  assumes "validateImageStreamDictPart1 x sd ''imageStreamDict'' = Inr im"
    and "validateIntegerEntry x (fst sd) ''imageStreamDict'' ''BitsPerComponent''
           (if HasSoleFilterNamed sd JPX \<or> im then OPTIONAL else REQUIRED) V10
           (if im then (\<lambda>i. i = 1) else (\<lambda>_. True)) = Inl e"
  shows "validateImageStreamDict (Suc n) x sd alt = Fail e"
  using assms
  by (simp add: validateImageStreamDictBody_def validateImageStreamDictPart2_def lift_def)

lemma validateImageStreamDict_BitsPerComponent_passes:
  assumes "validateImageStreamDictPart1 x sd ''imageStreamDict'' = Inr im"
    and "validateImageStreamDict (Suc n) x sd alt = Ok"
  shows "\<not> isl (validateIntegerEntry x (fst sd) ''imageStreamDict'' ''BitsPerComponent''
           (if HasSoleFilterNamed sd JPX \<or> im then OPTIONAL else REQUIRED) V10
           (if im then (\<lambda>i. i = 1) else (\<lambda>_. True)))"
  using assms
  by (simp add: validateImageStreamDictBody_def validateImageStreamDictPart2_def
      thenO_Ok_iff lift_Ok_iff Let_def)

text \<open>
  Claim C7. An image object that is an image mask validates only if its
  \<open>BitsPerComponent\<close> entry is absent, resolves to the null object (which the entry
  validators treat as absent) or resolves to the integer 1; when it resolves to another
  integer, such as 2, the validation fails with \<open>ConstraintViolation\<close>. For an image
  object that is not an image mask and whose sole filter is not JPEG2000, an absent
  \<open>BitsPerComponent\<close> fails with \<open>MissingRequiredEntry\<close>. Whether the object is
  an image mask is what phase 1 returns after \<open>Width\<close>, \<open>Height\<close>,
  \<open>ImageMask\<close> and \<open>ColorSpace\<close> have passed.
\<close>

theorem validateImageStreamDict_BitsPerComponent:
  "(validateImageStreamDictPart1 x sd ''imageStreamDict'' = Inr True
      \<and> validateImageStreamDict (Suc n) x sd alt = Ok
     \<longrightarrow> (case Find (fst sd) ''BitsPerComponent'' of
            None \<Rightarrow> True
          | Some obj \<Rightarrow> Dereference x obj = Inr PDFNil \<or> Dereference x obj = Inr (PDFInteger 1)))
   \<and> (validateImageStreamDictPart1 x sd ''imageStreamDict'' = Inr True
      \<and> Find (fst sd) ''BitsPerComponent'' = Some obj
      \<and> Dereference x obj = Inr (PDFInteger i) \<and> i \<noteq> 1
     \<longrightarrow> validateImageStreamDict (Suc n) x sd alt = Fail ConstraintViolation)
   \<and> (validateImageStreamDictPart1 x sd ''imageStreamDict'' = Inr False
      \<and> \<not> HasSoleFilterNamed sd JPX
      \<and> Find (fst sd) ''BitsPerComponent'' = None
     \<longrightarrow> validateImageStreamDict (Suc n) x sd alt = Fail MissingRequiredEntry)"
proof (intro conjI impI)
  assume a: "validateImageStreamDictPart1 x sd ''imageStreamDict'' = Inr True
      \<and> validateImageStreamDict (Suc n) x sd alt = Ok"
  from validateImageStreamDict_BitsPerComponent_passes [of x sd True n alt] a
  have "\<not> isl (validateIntegerEntry x (fst sd) ''imageStreamDict'' ''BitsPerComponent''
           OPTIONAL V10 (\<lambda>i. i = 1))"
    by simp
  then show "case Find (fst sd) ''BitsPerComponent'' of
            None \<Rightarrow> True
          | Some obj \<Rightarrow> Dereference x obj = Inr PDFNil \<or> Dereference x obj = Inr (PDFInteger 1)"
    by (auto simp: validateIntegerEntry_def validateKindEntry_def integerKind_def
        split: option.splits sum.splits if_splits PDFObject.splits)
next
  assume b: "validateImageStreamDictPart1 x sd ''imageStreamDict'' = Inr True
      \<and> Find (fst sd) ''BitsPerComponent'' = Some obj
      \<and> Dereference x obj = Inr (PDFInteger i) \<and> i \<noteq> 1"
  then have "validateIntegerEntry x (fst sd) ''imageStreamDict'' ''BitsPerComponent''
           OPTIONAL V10 (\<lambda>i. i = 1) = Inl ConstraintViolation"
    by (simp add: validateIntegerEntry_def validateKindEntry_def integerKind_def)
  with b show "validateImageStreamDict (Suc n) x sd alt = Fail ConstraintViolation"
    using validateImageStreamDict_BitsPerComponent_fails
      [of x sd True ConstraintViolation n alt]
    by simp
next
  assume c: "validateImageStreamDictPart1 x sd ''imageStreamDict'' = Inr False
      \<and> \<not> HasSoleFilterNamed sd JPX
      \<and> Find (fst sd) ''BitsPerComponent'' = None"
  then have "validateIntegerEntry x (fst sd) ''imageStreamDict'' ''BitsPerComponent''
           REQUIRED V10 (\<lambda>_. True) = Inl MissingRequiredEntry"
    by (simp add: validateIntegerEntry_def validateKindEntry_def absentEntry_def
        REQUIRED_def V10_def)
  with c show "validateImageStreamDict (Suc n) x sd alt = Fail MissingRequiredEntry"
    using validateImageStreamDict_BitsPerComponent_fails
      [of x sd False MissingRequiredEntry n alt]
    by simp
qed

theorem validateImageStreamDict_BitsPerComponent_witness:
  "validateImageStreamDictPart1 plainEnv (maskImage, []) ''imageStreamDict'' = Inr True
   \<and> validateImageStreamDict (Suc 0) plainEnv (maskImage, []) False = Ok
   \<and> Find maskImage ''BitsPerComponent'' = Some (PDFInteger 1)
   \<and> validateImageStreamDictPart1 plainEnv
       (AList.update ''BitsPerComponent'' (PDFInteger 2) maskImage, []) ''imageStreamDict''
       = Inr True
   \<and> validateImageStreamDict (Suc 0) plainEnv
       (AList.update ''BitsPerComponent'' (PDFInteger 2) maskImage, []) False
       = Fail ConstraintViolation
   \<and> validateImageStreamDictPart1 plainEnv
       (AList.delete ''BitsPerComponent'' plainImage, []) ''imageStreamDict'' = Inr False
   \<and> validateImageStreamDict (Suc 0) plainEnv
       (AList.delete ''BitsPerComponent'' plainImage, []) False = Fail MissingRequiredEntry"
proof -
  let ?two = "(AList.update ''BitsPerComponent'' (PDFInteger 2) maskImage, [] :: string list)"
  let ?none = "(AList.delete ''BitsPerComponent'' plainImage, [] :: string list)"
  have m1: "Find maskImage ''BitsPerComponent'' = Some (PDFInteger 1)"
    by (simp add: Find_def maskImage_def)
  have p2: "validateImageStreamDictPart1 plainEnv ?two ''imageStreamDict'' = Inr True"
    by (simp add: validateImageStreamDictPart1_def prim_defs plainEnv_def tableEnv_def
        maskImage_def)
  have f2: "Find (fst ?two) ''BitsPerComponent'' = Some (PDFInteger 2)"
    by (simp add: Find_def maskImage_def)
  have d2: "Dereference plainEnv (PDFInteger 2) = Inr (PDFInteger 2)"
    by (simp add: Dereference_def)
  have p3: "validateImageStreamDictPart1 plainEnv ?none ''imageStreamDict'' = Inr False"
    by (simp add: validateImageStreamDictPart1_def prim_defs plainEnv_def tableEnv_def
        plainImage_def HasSoleFilterNamed_def ExcludePatternCS_def)
  have f3: "Find (fst ?none) ''BitsPerComponent'' = None"
    by (simp add: Find_def plainImage_def)
  have j3: "\<not> HasSoleFilterNamed ?none JPX"
    by (simp add: HasSoleFilterNamed_def)
  have a: "case Find (fst (maskImage, [] :: string list)) ''BitsPerComponent'' of
               None \<Rightarrow> True
             | Some obj \<Rightarrow> Dereference plainEnv obj = Inr PDFNil
                          \<or> Dereference plainEnv obj = Inr (PDFInteger 1)"
    using validateImageStreamDict_BitsPerComponent [of plainEnv "(maskImage, [])" 0 False]
      maskImage_Part1 maskImage_valid [of 0]
    by simp
  have b: "validateImageStreamDict (Suc 0) plainEnv ?two False = Fail ConstraintViolation"
    using validateImageStreamDict_BitsPerComponent
      [of plainEnv ?two 0 False "PDFInteger 2" 2] p2 f2 d2
    by simp
  have c: "validateImageStreamDict (Suc 0) plainEnv ?none False = Fail MissingRequiredEntry"
    using validateImageStreamDict_BitsPerComponent [of plainEnv ?none 0 False] p3 f3 j3
    by simp
  from a b c m1 p2 p3 maskImage_Part1 maskImage_valid [of 0] show ?thesis by simp
qed

subsection \<open>ColorSpace\<close>

text \<open>
  Claim C8. Take an image object whose \<open>Width\<close> and \<open>Height\<close> pass and whose
  \<open>ImageMask\<close> entry validates to \<open>im\<close>. When it is an image mask, phase 1
  succeeds whatever the \<open>ColorSpace\<close> entry is: it is not checked. When it is not,
  an absent \<open>ColorSpace\<close> is a \<open>MissingRequiredEntry\<close> unless the sole filter is
  JPEG2000, or the sole filter is CCITT-Fax and the mode is relaxed; and a present
  \<open>ColorSpace\<close> that resolves to a value \<open>v\<close> other than null is checked as a
  color space with pattern color spaces excluded, a failure of that check being the
  result.
\<close>

theorem validateImageStreamDictPart1_ColorSpace:
  assumes "passes (validateIntegerEntry x (fst sd) dn ''Width'' REQUIRED V10 (\<lambda>_. True))"
    and "passes (validateIntegerEntry x (fst sd) dn ''Height'' REQUIRED V10 (\<lambda>_. True))"
    and "validateBooleanEntry x (fst sd) dn ''ImageMask'' OPTIONAL V10 (\<lambda>_. True) = Inr im"
  shows "(im = Some True \<longrightarrow> validateImageStreamDictPart1 x sd dn = Inr True)
    \<and> (im \<noteq> Some True \<and> Find (fst sd) ''ColorSpace'' = None
        \<longrightarrow> validateImageStreamDictPart1 x sd dn =
              (if HasSoleFilterNamed sd JPX
                  \<or> (HasSoleFilterNamed sd CCITTFax \<and> ValidationMode x = ValidationRelaxed)
               then Inr False else Inl MissingRequiredEntry))
    \<and> (im \<noteq> Some True \<and> Find (fst sd) ''ColorSpace'' = Some obj
          \<and> Dereference x obj = Inr v \<and> v \<noteq> PDFNil
        \<longrightarrow> validateImageStreamDictPart1 x sd dn =
              (case colorSpaceKind x True v of Inl e \<Rightarrow> Inl e | Inr _ \<Rightarrow> Inr False))"
proof -
  from assms(1) obtain w where w:
    "validateIntegerEntry x (fst sd) dn ''Width'' REQUIRED V10 (\<lambda>_. True) = Inr w"
    by (cases "validateIntegerEntry x (fst sd) dn ''Width'' REQUIRED V10 (\<lambda>_. True)")
      (simp_all add: passes_def)
  from assms(2) obtain h where h:
    "validateIntegerEntry x (fst sd) dn ''Height'' REQUIRED V10 (\<lambda>_. True) = Inr h"
    by (cases "validateIntegerEntry x (fst sd) dn ''Height'' REQUIRED V10 (\<lambda>_. True)")
      (simp_all add: passes_def)
  have P: "validateImageStreamDictPart1 x sd dn =
             (if im = Some True then Inr True
              else andThen (validateColorSpaceEntry x (fst sd) dn ''ColorSpace''
                              (if HasSoleFilterNamed sd CCITTFax
                                  \<and> ValidationMode x = ValidationRelaxed then OPTIONAL
                               else if HasSoleFilterNamed sd JPX then OPTIONAL else REQUIRED)
                              ExcludePatternCS)
                     (Inr False))"
    by (simp add: validateImageStreamDictPart1_def w h assms(3) andThen_def Let_def)
  have 1: "im = Some True \<longrightarrow> validateImageStreamDictPart1 x sd dn = Inr True"
    by (simp add: P)
  have 2: "im \<noteq> Some True \<and> Find (fst sd) ''ColorSpace'' = None
        \<longrightarrow> validateImageStreamDictPart1 x sd dn =
              (if HasSoleFilterNamed sd JPX
                  \<or> (HasSoleFilterNamed sd CCITTFax \<and> ValidationMode x = ValidationRelaxed)
               then Inr False else Inl MissingRequiredEntry)"
    by (simp add: P andThen_def validateColorSpaceEntry_def validateKindEntry_def
        absentEntry_def REQUIRED_def OPTIONAL_def V10_def)
  have 3: "im \<noteq> Some True \<and> Find (fst sd) ''ColorSpace'' = Some obj
          \<and> Dereference x obj = Inr v \<and> v \<noteq> PDFNil
        \<longrightarrow> validateImageStreamDictPart1 x sd dn =
              (case colorSpaceKind x True v of Inl e \<Rightarrow> Inl e | Inr _ \<Rightarrow> Inr False)"
    by (simp add: P andThen_def validateColorSpaceEntry_def validateKindEntry_def
        versionViolated_def ExcludePatternCS_def V10_def split: sum.splits)
  from 1 2 3 show ?thesis by simp
qed

theorem validateImageStreamDictPart1_ColorSpace_witness:
  "validateImageStreamDictPart1 plainEnv
     (AList.update ''ColorSpace'' (PDFInteger 3) maskImage, []) ''imageStreamDict'' = Inr True
   \<and> validateImageStreamDictPart1 plainEnv
       (AList.delete ''ColorSpace'' plainImage, []) ''imageStreamDict''
       = Inl MissingRequiredEntry
   \<and> validateImageStreamDictPart1 plainEnv
       (AList.delete ''ColorSpace'' plainImage, [JPX]) ''imageStreamDict'' = Inr False
   \<and> validateImageStreamDictPart1 plainEnv
       (AList.delete ''ColorSpace'' plainImage, [CCITTFax]) ''imageStreamDict''
       = Inl MissingRequiredEntry
   \<and> validateImageStreamDictPart1 (tableEnv [] V17 ValidationRelaxed)
       (AList.delete ''ColorSpace'' plainImage, [CCITTFax]) ''imageStreamDict'' = Inr False
   \<and> validateImageStreamDictPart1 plainEnv
       (AList.update ''ColorSpace'' (PDFName ''Pattern'') plainImage, []) ''imageStreamDict''
       = Inl ConstraintViolation"
proof -
  let ?m = "AList.update ''ColorSpace'' (PDFInteger 3) maskImage"
  let ?n = "AList.delete ''ColorSpace'' plainImage"
  let ?p = "AList.update ''ColorSpace'' (PDFName ''Pattern'') plainImage"
  let ?r = "tableEnv [] V17 ValidationRelaxed"
  have wm: "passes (validateIntegerEntry plainEnv ?m dn k REQUIRED V10 (\<lambda>_. True))"
    if "k = ''Width'' \<or> k = ''Height''" for dn k
    using that by (auto simp: passes_def prim_defs plainEnv_def tableEnv_def maskImage_def)
  have im: "validateBooleanEntry plainEnv ?m dn ''ImageMask'' OPTIONAL V10 (\<lambda>_. True)
              = Inr (Some True)" for dn
    by (simp add: prim_defs plainEnv_def tableEnv_def maskImage_def)
  have wn: "passes (validateIntegerEntry e ?n dn k REQUIRED V10 (\<lambda>_. True))"
    if "k = ''Width'' \<or> k = ''Height''" and "e = plainEnv \<or> e = ?r" for dn k e
    using that by (auto simp: passes_def prim_defs plainEnv_def tableEnv_def plainImage_def)
  have imn: "validateBooleanEntry e ?n dn ''ImageMask'' OPTIONAL V10 (\<lambda>_. True) = Inr None"
    if "e = plainEnv \<or> e = ?r" for dn e
    using that by (auto simp: prim_defs plainEnv_def tableEnv_def plainImage_def)
  have fn: "Find ?n ''ColorSpace'' = None"
    by (simp add: Find_def plainImage_def)
  have wp: "passes (validateIntegerEntry plainEnv ?p dn k REQUIRED V10 (\<lambda>_. True))"
    if "k = ''Width'' \<or> k = ''Height''" for dn k
    using that by (auto simp: passes_def prim_defs plainEnv_def tableEnv_def plainImage_def)
  have imp: "validateBooleanEntry plainEnv ?p dn ''ImageMask'' OPTIONAL V10 (\<lambda>_. True)
               = Inr None" for dn
    by (simp add: prim_defs plainEnv_def tableEnv_def plainImage_def)
  have fp: "Find ?p ''ColorSpace'' = Some (PDFName ''Pattern'')"
    by (simp add: Find_def plainImage_def)
  have dp: "Dereference plainEnv (PDFName ''Pattern'') = Inr (PDFName ''Pattern'')"
    by (simp add: Dereference_def)
  have kp: "colorSpaceKind plainEnv True (PDFName ''Pattern'') = Inl ConstraintViolation"
    by (simp add: plainEnv_def tableEnv_def)
  have 1: "validateImageStreamDictPart1 plainEnv (?m, []) ''imageStreamDict'' = Inr True"
    using validateImageStreamDictPart1_ColorSpace
      [of plainEnv "(?m, [])" "''imageStreamDict''" "Some True"] wm im
    by simp
  have 2: "validateImageStreamDictPart1 plainEnv (?n, []) ''imageStreamDict''
             = Inl MissingRequiredEntry"
    using validateImageStreamDictPart1_ColorSpace
      [of plainEnv "(?n, [])" "''imageStreamDict''" None] wn imn fn
    by (simp add: HasSoleFilterNamed_def)
  have 3: "validateImageStreamDictPart1 plainEnv (?n, [JPX]) ''imageStreamDict'' = Inr False"
    using validateImageStreamDictPart1_ColorSpace
      [of plainEnv "(?n, [JPX])" "''imageStreamDict''" None] wn imn fn
    by (simp add: HasSoleFilterNamed_def)
  have 4: "validateImageStreamDictPart1 plainEnv (?n, [CCITTFax]) ''imageStreamDict''
             = Inl MissingRequiredEntry"
    using validateImageStreamDictPart1_ColorSpace
      [of plainEnv "(?n, [CCITTFax])" "''imageStreamDict''" None] wn imn fn
    by (simp add: HasSoleFilterNamed_def JPX_def CCITTFax_def plainEnv_def tableEnv_def)
  have 5: "validateImageStreamDictPart1 ?r (?n, [CCITTFax]) ''imageStreamDict'' = Inr False"
    using validateImageStreamDictPart1_ColorSpace
      [of ?r "(?n, [CCITTFax])" "''imageStreamDict''" None] wn imn fn
    by (simp add: HasSoleFilterNamed_def tableEnv_def)
  have 6: "validateImageStreamDictPart1 plainEnv (?p, []) ''imageStreamDict''
             = Inl ConstraintViolation"
    using validateImageStreamDictPart1_ColorSpace
      [of plainEnv "(?p, [])" "''imageStreamDict''" None "PDFName ''Pattern''"
        "PDFName ''Pattern''"] wp imp fp dp kp
    by simp
  from 1 2 3 4 5 6 show ?thesis by simp
qed

subsection \<open>Cross-field rules of form objects\<close>

lemma validateIntegerEntry_present:
  assumes "Find dict k = Some obj" and "Dereference x obj \<noteq> Inr PDFNil"
  shows "isl (validateIntegerEntry x dict dn k r sv v)
         \<or> (\<exists>i. validateIntegerEntry x dict dn k r sv v = Inr (Some i))"
  using assms
  by (auto simp: validateIntegerEntry_def validateKindEntry_def
      split: sum.splits if_splits)

lemma validateFormStreamDictPart2_conflict:
  assumes "validatePieceInfo x dict dn ''PieceInfo'' OPTIONAL V13 = Inr hp"
    and "validateDateEntry x dict dn ''LastModified'' OPTIONAL V13 = Inr lm"
    and "hp \<longrightarrow> lm \<noteq> None"
    and "validateIntegerEntry x dict dn ''StructParent'' OPTIONAL V13 (\<lambda>_. True) = Inr (Some i)"
    and "validateIntegerEntry x dict dn ''StructParents'' OPTIONAL V13 (\<lambda>_. True) = Inr (Some j)"
  shows "validateFormStreamDictPart2 x dict dn = Inl ConflictingEntries"
  using assms by (auto simp: validateFormStreamDictPart2_def)

lemma validateFormStreamDictPart2_both_fails:
  assumes "Find dict ''StructParent'' = Some o1" and "Find dict ''StructParents'' = Some o2"
    and "Dereference x o1 \<noteq> Inr PDFNil" and "Dereference x o2 \<noteq> Inr PDFNil"
  shows "isl (validateFormStreamDictPart2 x dict dn)"
proof -
  from validateIntegerEntry_present [OF assms(1) assms(3)]
  have 1: "isl (validateIntegerEntry x dict dn ''StructParent'' OPTIONAL V13 (\<lambda>_. True))
         \<or> (\<exists>i. validateIntegerEntry x dict dn ''StructParent'' OPTIONAL V13 (\<lambda>_. True)
                  = Inr (Some i))" .
  from validateIntegerEntry_present [OF assms(2) assms(4)]
  have 2: "isl (validateIntegerEntry x dict dn ''StructParents'' OPTIONAL V13 (\<lambda>_. True))
         \<or> (\<exists>i. validateIntegerEntry x dict dn ''StructParents'' OPTIONAL V13 (\<lambda>_. True)
                  = Inr (Some i))" .
  from 1 2 show ?thesis
    by (auto simp: validateFormStreamDictPart2_def isl_def split: sum.splits)
qed

text \<open>
  Claim C9. In the second part of the form validator: when the piece-info validator
  reports \<open>PieceInfo\<close> present and \<open>LastModified\<close> is absent, the result is
  \<open>MissingDependentEntry\<close>. A dictionary that has both \<open>StructParent\<close> and
  \<open>StructParents\<close>, neither resolving to null, always fails, and it fails with
  \<open>ConflictingEntries\<close> when the checks before that rule pass and both entries are
  valid integers. With no \<open>PieceInfo\<close>, no \<open>StructParent\<close> and no
  \<open>StructParents\<close>, neither cross-field rule fires: when the single-entry checks
  (\<open>LastModified\<close>, \<open>OPI\<close>, \<open>OC\<close>, \<open>Name\<close>) pass, the result is success.
\<close>

theorem validateFormStreamDictPart2_cross_field:
  "(validatePieceInfo x dict dn ''PieceInfo'' OPTIONAL V13 = Inr True
      \<and> Find dict ''LastModified'' = None
     \<longrightarrow> validateFormStreamDictPart2 x dict dn = Inl MissingDependentEntry)
   \<and> (Find dict ''StructParent'' = Some o1 \<and> Find dict ''StructParents'' = Some o2
      \<and> Dereference x o1 \<noteq> Inr PDFNil \<and> Dereference x o2 \<noteq> Inr PDFNil
     \<longrightarrow> isl (validateFormStreamDictPart2 x dict dn))
   \<and> (validatePieceInfo x dict dn ''PieceInfo'' OPTIONAL V13 = Inr hp
      \<and> validateDateEntry x dict dn ''LastModified'' OPTIONAL V13 = Inr lm
      \<and> (hp \<longrightarrow> lm \<noteq> None)
      \<and> validateIntegerEntry x dict dn ''StructParent'' OPTIONAL V13 (\<lambda>_. True) = Inr (Some i)
      \<and> validateIntegerEntry x dict dn ''StructParents'' OPTIONAL V13 (\<lambda>_. True) = Inr (Some j)
     \<longrightarrow> validateFormStreamDictPart2 x dict dn = Inl ConflictingEntries)
   \<and> (validatePieceInfo x dict dn ''PieceInfo'' OPTIONAL V13 = Inr False
      \<and> Find dict ''StructParent'' = None \<and> Find dict ''StructParents'' = None
      \<and> passes (validateDateEntry x dict dn ''LastModified'' OPTIONAL V13)
      \<and> passes (validateEntryOPI x dict dn ''OPI'' OPTIONAL V12)
      \<and> passes (validateOptionalContent x dict dn ''OC'' OPTIONAL V15)
      \<and> passes (validateNameEntry x dict dn ''Name'' (Version x = V10) V10 (\<lambda>_. True))
     \<longrightarrow> validateFormStreamDictPart2 x dict dn = Inr ())"
proof (intro conjI impI)
  assume "validatePieceInfo x dict dn ''PieceInfo'' OPTIONAL V13 = Inr True
      \<and> Find dict ''LastModified'' = None"
  then show "validateFormStreamDictPart2 x dict dn = Inl MissingDependentEntry"
    by (simp add: validateFormStreamDictPart2_def validateDateEntry_def validateKindEntry_def
        absentEntry_def OPTIONAL_def)
next
  assume "Find dict ''StructParent'' = Some o1 \<and> Find dict ''StructParents'' = Some o2
      \<and> Dereference x o1 \<noteq> Inr PDFNil \<and> Dereference x o2 \<noteq> Inr PDFNil"
  then show "isl (validateFormStreamDictPart2 x dict dn)"
    by (simp add: validateFormStreamDictPart2_both_fails)
next
  assume "validatePieceInfo x dict dn ''PieceInfo'' OPTIONAL V13 = Inr hp
      \<and> validateDateEntry x dict dn ''LastModified'' OPTIONAL V13 = Inr lm
      \<and> (hp \<longrightarrow> lm \<noteq> None)
      \<and> validateIntegerEntry x dict dn ''StructParent'' OPTIONAL V13 (\<lambda>_. True) = Inr (Some i)
      \<and> validateIntegerEntry x dict dn ''StructParents'' OPTIONAL V13 (\<lambda>_. True) = Inr (Some j)"
  then show "validateFormStreamDictPart2 x dict dn = Inl ConflictingEntries"
    using validateFormStreamDictPart2_conflict [of x dict dn hp lm i j] by simp
next
  assume a: "validatePieceInfo x dict dn ''PieceInfo'' OPTIONAL V13 = Inr False
      \<and> Find dict ''StructParent'' = None \<and> Find dict ''StructParents'' = None
      \<and> passes (validateDateEntry x dict dn ''LastModified'' OPTIONAL V13)
      \<and> passes (validateEntryOPI x dict dn ''OPI'' OPTIONAL V12)
      \<and> passes (validateOptionalContent x dict dn ''OC'' OPTIONAL V15)
      \<and> passes (validateNameEntry x dict dn ''Name'' (Version x = V10) V10 (\<lambda>_. True))"
  then have sp: "validateIntegerEntry x dict dn ''StructParent'' OPTIONAL V13 (\<lambda>_. True)
                   = Inr None"
    and sps: "validateIntegerEntry x dict dn ''StructParents'' OPTIONAL V13 (\<lambda>_. True)
                   = Inr None"
    by (simp_all add: validateIntegerEntry_def validateKindEntry_def absentEntry_def
        OPTIONAL_def)
  from a obtain lm where lm: "validateDateEntry x dict dn ''LastModified'' OPTIONAL V13 = Inr lm"
    by (cases "validateDateEntry x dict dn ''LastModified'' OPTIONAL V13")
      (simp_all add: passes_def)
  from a have "andThen (validateEntryOPI x dict dn ''OPI'' OPTIONAL V12)
           (andThen (validateOptionalContent x dict dn ''OC'' OPTIONAL V15)
           (andThen (validateNameEntry x dict dn ''Name'' (Version x = V10) V10 (\<lambda>_. True))
              (Inr ()))) = Inr ()"
    by (simp add: andThen_Inr_iff passes_def)
  with a sp sps lm show "validateFormStreamDictPart2 x dict dn = Inr ()"
    by (simp add: validateFormStreamDictPart2_def)
qed

theorem validateFormStreamDictPart2_cross_field_witness:
  "validateFormStreamDictPart2 plainEnv [(''PieceInfo'', PDFDict [])] ''formStreamDict''
     = Inl MissingDependentEntry
   \<and> isl (validateFormStreamDictPart2 plainEnv
            [(''StructParent'', PDFName ''a''), (''StructParents'', PDFInteger 2)]
            ''formStreamDict'')
   \<and> validateFormStreamDictPart2 plainEnv
        [(''StructParent'', PDFInteger 1), (''StructParents'', PDFInteger 2)] ''formStreamDict''
       = Inl ConflictingEntries
   \<and> validateFormStreamDictPart2 plainEnv [] ''formStreamDict'' = Inr ()"
proof -
  let ?a = "[(''PieceInfo'', PDFDict [])]"
  let ?b = "[(''StructParent'', PDFName ''a''), (''StructParents'', PDFInteger 2)]"
  let ?c = "[(''StructParent'', PDFInteger 1), (''StructParents'', PDFInteger 2)]"
  have 1: "validateFormStreamDictPart2 plainEnv ?a ''formStreamDict'' = Inl MissingDependentEntry"
    using validateFormStreamDictPart2_cross_field [of plainEnv ?a "''formStreamDict''"]
    by (simp add: plainEnv_def tableEnv_def Find_def)
  have 2: "isl (validateFormStreamDictPart2 plainEnv ?b ''formStreamDict'')"
    using validateFormStreamDictPart2_cross_field
      [of plainEnv ?b "''formStreamDict''" "PDFName ''a''" "PDFInteger 2"]
    by (simp add: Find_def Dereference_def)
  have 3: "validateFormStreamDictPart2 plainEnv ?c ''formStreamDict'' = Inl ConflictingEntries"
    using validateFormStreamDictPart2_cross_field
      [of plainEnv ?c "''formStreamDict''" _ _ False None 1 2]
    by (simp add: plainEnv_def tableEnv_def prim_defs)
  have 4: "validateFormStreamDictPart2 plainEnv [] ''formStreamDict'' = Inr ()"
    using validateFormStreamDictPart2_cross_field [of plainEnv "[]" "''formStreamDict''"]
    by (simp add: plainEnv_def tableEnv_def prim_defs passes_def validateEntryOPI_def)
  from 1 2 3 4 show ?thesis by simp
qed

subsection \<open>Dispatch on the Subtype of an external object\<close>

lemma DereferenceStreamDict_Some_not_nil:
  "DereferenceStreamDict x obj = Inr (Some sd) \<Longrightarrow> obj \<noteq> PDFNil"
  by (auto simp: DereferenceStreamDict_def Dereference_def)

lemma validateNameEntry_name:
  assumes "Find dict k = Some obj" and "Dereference x obj = Inr (PDFName s)"
  shows "validateNameEntry x dict dn k r V10 (\<lambda>_. True) = Inr (Some s)"
  using assms
  by (simp add: validateNameEntry_def validateKindEntry_def nameKind_def versionViolated_def
      V10_def)

lemma validateNameEntry_absent:
  assumes "Find dict k = None"
  shows "validateNameEntry x dict dn k r V10 v
           = (if r then Inl MissingRequiredEntry else Inr None)"
  using assms
  by (simp add: validateNameEntry_def validateKindEntry_def absentEntry_def V10_def)

lemma formDict_valid:
  "validateFormStreamDict e (formDict t, []) = Inr ()"
  if "e = plainEnv \<or> e = relaxedEnv"
proof -
  have 1: "validateFormStreamDictPart1 e (formDict t, []) dn = Inr ()" for dn
    using that
    by (auto simp: validateFormStreamDictPart1_def validateReferenceDict_def prim_defs
        plainEnv_def relaxedEnv_def tableEnv_def formDict_def)
  have 2: "validateFormStreamDictPart2 e (formDict t) dn = Inr ()" for dn
    using that
    by (auto simp: validateFormStreamDictPart2_def validateEntryOPI_def prim_defs
        plainEnv_def relaxedEnv_def tableEnv_def formDict_def)
  show ?thesis by (simp add: validateFormStreamDict_def 1 2 andThen_def)
qed

lemma plainImage_valid:
  "validateImageStreamDict (Suc n) e (plainImage, []) alt = Ok"
  if "e = plainEnv \<or> e = relaxedEnv"
proof -
  have 1: "validateImageStreamDictPart1 e (plainImage, []) dn = Inr False" for dn
    using that
    by (auto simp: validateImageStreamDictPart1_def prim_defs plainEnv_def relaxedEnv_def
        tableEnv_def plainImage_def HasSoleFilterNamed_def ExcludePatternCS_def)
  have 2: "validateImageStreamDictPart2 rec e (plainImage, []) dn False alt = Ok" for rec dn
    using that
    by (auto simp: validateImageStreamDictPart2_def validateAlternateImageStreamDicts_def
        validateMaskEntry_def lift_def prim_defs plainEnv_def relaxedEnv_def tableEnv_def
        plainImage_def HasSoleFilterNamed_def)
  have 3: "validateImageStreamDictRest rec e (plainImage, []) dn = Ok" for rec dn
    using that
    by (auto simp: validateImageStreamDictRest_def validateEntryOPI_def validateEntryOC_def
        lift_def prim_defs plainEnv_def relaxedEnv_def tableEnv_def plainImage_def)
  show ?thesis by (simp add: validateImageStreamDictBody_def 1 2 3)
qed

text \<open>
  Claim C5. Take a reference that resolves to a stream dictionary whose \<open>Type\<close>
  entry passes. When \<open>Subtype\<close> resolves to a name, the result is that of the form
  validator for \<open>Form\<close>, that of the image validator for \<open>Image\<close>,
  \<open>UnsupportedConstruct\<close> for \<open>PS\<close> and \<open>UnknownSubtype\<close> for any other name.
  When \<open>Subtype\<close> is absent, the result is \<open>MissingRequiredEntry\<close> in strict mode;
  in relaxed mode it is that of the form validator when the key \<open>BBox\<close> is present
  and that of the image validator otherwise.
\<close>

theorem validateXObjectStreamDict_dispatch:
  assumes "DereferenceStreamDict x obj = Inr (Some sd)"
    and "passes (validateNameEntry x (fst sd) ''xObjectStreamDict'' ''Type'' OPTIONAL V10
                   (\<lambda>s. s = ''XObject''))"
  shows "(Find (fst sd) ''Subtype'' = Some st \<and> Dereference x st = Inr (PDFName s)
          \<longrightarrow> validateXObjectStreamDict n x obj =
                (if s = ''Form'' then lift (validateFormStreamDict x sd)
                 else if s = ''Image'' then validateImageStreamDict n x sd False
                 else if s = ''PS'' then Fail UnsupportedConstruct
                 else Fail UnknownSubtype))
    \<and> (Find (fst sd) ''Subtype'' = None \<and> ValidationMode x = ValidationStrict
          \<longrightarrow> validateXObjectStreamDict n x obj = Fail MissingRequiredEntry)
    \<and> (Find (fst sd) ''Subtype'' = None \<and> ValidationMode x = ValidationRelaxed
          \<longrightarrow> validateXObjectStreamDict n x obj =
                (if Find (fst sd) ''BBox'' \<noteq> None then lift (validateFormStreamDict x sd)
                 else validateImageStreamDict n x sd False))"
proof -
  from assms(2) obtain t where t:
    "validateNameEntry x (fst sd) ''xObjectStreamDict'' ''Type'' OPTIONAL V10
       (\<lambda>s. s = ''XObject'') = Inr t"
    by (cases "validateNameEntry x (fst sd) ''xObjectStreamDict'' ''Type'' OPTIONAL V10
                 (\<lambda>s. s = ''XObject'')") (simp_all add: passes_def)
  note nn = DereferenceStreamDict_Some_not_nil [OF assms(1)]
  have 1: "validateXObjectStreamDict n x obj =
             (if s = ''Form'' then lift (validateFormStreamDict x sd)
              else if s = ''Image'' then validateImageStreamDict n x sd False
              else if s = ''PS'' then Fail UnsupportedConstruct
              else Fail UnknownSubtype)"
    if "Find (fst sd) ''Subtype'' = Some st" and "Dereference x st = Inr (PDFName s)"
    using validateNameEntry_name [OF that] nn
    by (simp add: validateXObjectStreamDict_def assms(1) t
        isNoAlternateImageStreamDict_def)
  have 2: "validateXObjectStreamDict n x obj = Fail MissingRequiredEntry"
    if "Find (fst sd) ''Subtype'' = None" and "ValidationMode x = ValidationStrict"
    using that nn
    by (simp add: validateXObjectStreamDict_def assms(1) t validateNameEntry_absent
        REQUIRED_def)
  have 3: "validateXObjectStreamDict n x obj =
             (if Find (fst sd) ''BBox'' \<noteq> None then lift (validateFormStreamDict x sd)
              else validateImageStreamDict n x sd False)"
    if "Find (fst sd) ''Subtype'' = None" and "ValidationMode x = ValidationRelaxed"
    using that nn
    by (auto simp: validateXObjectStreamDict_def assms(1) t [unfolded OPTIONAL_def]
        validateNameEntry_absent OPTIONAL_def isNoAlternateImageStreamDict_def
        split: option.splits)
  from 1 2 3 show ?thesis by blast
qed

theorem validateXObjectStreamDict_dispatch_witness:
  "validateXObjectStreamDict 1 plainEnv (PDFStreamDict (formDict True) []) = Ok
   \<and> validateXObjectStreamDict 1 plainEnv (PDFStreamDict plainImage []) = Ok
   \<and> validateXObjectStreamDict 1 plainEnv (PDFStreamDict [(''Subtype'', PDFName ''PS'')] [])
       = Fail UnsupportedConstruct
   \<and> validateXObjectStreamDict 1 relaxedEnv (PDFStreamDict [(''Subtype'', PDFName ''PS'')] [])
       = Fail UnsupportedConstruct
   \<and> validateXObjectStreamDict 1 plainEnv (PDFStreamDict [(''Subtype'', PDFName ''Movie'')] [])
       = Fail UnknownSubtype
   \<and> validateXObjectStreamDict 1 plainEnv (PDFStreamDict (formDict False) [])
       = Fail MissingRequiredEntry
   \<and> validateXObjectStreamDict 1 relaxedEnv (PDFStreamDict (formDict False) []) = Ok
   \<and> validateXObjectStreamDict 1 relaxedEnv
       (PDFStreamDict (AList.delete ''Subtype'' plainImage) [])
       = validateImageStreamDict 1 relaxedEnv (AList.delete ''Subtype'' plainImage, []) False"
proof -
  have d: "DereferenceStreamDict e (PDFStreamDict dd []) = Inr (Some (dd, []))" for e dd
    by (simp add: DereferenceStreamDict_def Dereference_def)
  have r: "Dereference e (PDFName s) = Inr (PDFName s)" for e s
    by (simp add: Dereference_def)
  have ty: "passes (validateNameEntry e dd dn ''Type'' OPTIONAL V10 (\<lambda>s. s = ''XObject''))"
    if "Find dd ''Type'' = None \<or> Find dd ''Type'' = Some (PDFName ''XObject'')" for e dd dn
    using that
    by (auto simp: passes_def validateNameEntry_def validateKindEntry_def absentEntry_def
        OPTIONAL_def Dereference_def nameKind_def versionViolated_def V10_def)
  have m: "ValidationMode plainEnv = ValidationStrict"
    "ValidationMode relaxedEnv = ValidationRelaxed"
    by (simp_all add: plainEnv_def relaxedEnv_def tableEnv_def)
  have 1: "validateXObjectStreamDict 1 plainEnv (PDFStreamDict (formDict True) []) = Ok"
    using validateXObjectStreamDict_dispatch
      [where x = plainEnv and obj = "PDFStreamDict (formDict True) []"
         and sd = "(formDict True, [])" and st = "PDFName ''Form''" and s = "''Form''"
         and n = 1]
      formDict_valid [of plainEnv True]
    by (simp add: d ty Find_def formDict_def r lift_def)
  have 2: "validateXObjectStreamDict 1 plainEnv (PDFStreamDict plainImage []) = Ok"
    using validateXObjectStreamDict_dispatch
      [where x = plainEnv and obj = "PDFStreamDict plainImage []"
         and sd = "(plainImage, [])" and st = "PDFName ''Image''" and s = "''Image''"
         and n = 1]
      plainImage_valid [of plainEnv 0 False]
      ty [of plainImage plainEnv "''xObjectStreamDict''"]
    by (simp add: d r) (simp add: Find_def plainImage_def)
  have 3: "validateXObjectStreamDict 1 e (PDFStreamDict [(''Subtype'', PDFName ''PS'')] [])
             = Fail UnsupportedConstruct" for e
    using validateXObjectStreamDict_dispatch
      [where x = e and obj = "PDFStreamDict [(''Subtype'', PDFName ''PS'')] []"
         and sd = "([(''Subtype'', PDFName ''PS'')], [])" and st = "PDFName ''PS''"
         and s = "''PS''" and n = 1]
    by (simp add: d ty Find_def r)
  have 4: "validateXObjectStreamDict 1 plainEnv
             (PDFStreamDict [(''Subtype'', PDFName ''Movie'')] []) = Fail UnknownSubtype"
    using validateXObjectStreamDict_dispatch
      [where x = plainEnv and obj = "PDFStreamDict [(''Subtype'', PDFName ''Movie'')] []"
         and sd = "([(''Subtype'', PDFName ''Movie'')], [])" and st = "PDFName ''Movie''"
         and s = "''Movie''" and n = 1]
    by (simp add: d ty Find_def r)
  have 5: "validateXObjectStreamDict 1 plainEnv (PDFStreamDict (formDict False) [])
             = Fail MissingRequiredEntry"
    using validateXObjectStreamDict_dispatch
      [where x = plainEnv and obj = "PDFStreamDict (formDict False) []"
         and sd = "(formDict False, [])" and n = 1]
    by (simp add: d ty Find_def formDict_def m)
  have 6: "validateXObjectStreamDict 1 relaxedEnv (PDFStreamDict (formDict False) []) = Ok"
    using validateXObjectStreamDict_dispatch
      [where x = relaxedEnv and obj = "PDFStreamDict (formDict False) []"
         and sd = "(formDict False, [])" and n = 1]
      formDict_valid [of relaxedEnv False]
    by (simp add: d ty Find_def formDict_def m lift_def)
  have 7: "validateXObjectStreamDict 1 relaxedEnv
             (PDFStreamDict (AList.delete ''Subtype'' plainImage) [])
           = validateImageStreamDict 1 relaxedEnv (AList.delete ''Subtype'' plainImage, []) False"
    using validateXObjectStreamDict_dispatch
      [where x = relaxedEnv and obj = "PDFStreamDict (AList.delete ''Subtype'' plainImage) []"
         and sd = "(AList.delete ''Subtype'' plainImage, [])" and n = 1]
    by (simp add: d ty Find_def plainImage_def m)
  from 1 2 3 [of plainEnv] 3 [of relaxedEnv] 4 5 6 7 show ?thesis by simp
qed

subsection \<open>Entries that resolve to the null object\<close>

lemma validateAlternates_skips_null:
  assumes "Dereference x obj = Inr PDFNil"
  shows "validateAlternates rec x (pre @ obj # post) = validateAlternates rec x (pre @ post)"
proof (induction pre)
  case Nil
  from assms show ?case
    by (simp add: validateStreamDict_def DereferenceStreamDict_def)
next
  case (Cons a pre)
  then show ?case
    by (simp split: sum.splits option.splits)
qed

text \<open>
  Claim C10. A value that resolves to the null object is accepted where the source
  tests the resolved value against \<open>nil\<close>. A reference dictionary whose \<open>Page\<close>
  entry is present and resolves to null validates (its \<open>F\<close> and \<open>ID\<close> entries
  passing); an OPI version dictionary whose single entry, keyed "1.3" or "2.0",
  resolves to null validates; and an element of an \<open>Alternates\<close> array that resolves
  to null is skipped: removing it does not change the result.
\<close>

theorem null_entries_accepted:
  "(passes (validateFileSpecEntry x dict ''refDict'' ''F'' REQUIRED V10)
      \<and> Find dict ''Page'' = Some obj \<and> Dereference x obj = Inr PDFNil
      \<and> passes (validateStringArrayEntry x dict ''refDict'' ''ID'' OPTIONAL V10
                  (\<lambda>arr. length arr = 2))
     \<longrightarrow> validateReferenceDict x dict = Inr ())
   \<and> (Len dict = 1 \<and> (Find dict ''1.3'' = Some obj \<or> Find dict ''2.0'' = Some obj)
      \<and> Dereference x obj = Inr PDFNil
     \<longrightarrow> validateOPIVersionDict x dict = Inr ())
   \<and> (Dereference x obj = Inr PDFNil
     \<longrightarrow> validateAlternates rec x (pre @ obj # post) = validateAlternates rec x (pre @ post))"
proof (intro conjI impI)
  assume a: "passes (validateFileSpecEntry x dict ''refDict'' ''F'' REQUIRED V10)
      \<and> Find dict ''Page'' = Some obj \<and> Dereference x obj = Inr PDFNil
      \<and> passes (validateStringArrayEntry x dict ''refDict'' ''ID'' OPTIONAL V10
                  (\<lambda>arr. length arr = 2))"
  then have "validateReferenceDictPageEntry x obj = Inr ()"
    by (simp add: validateReferenceDictPageEntry_def)
  with a show "validateReferenceDict x dict = Inr ()"
    by (simp add: validateReferenceDict_def andThen_Inr_iff passes_def Let_def)
next
  assume b: "Len dict = 1 \<and> (Find dict ''1.3'' = Some obj \<or> Find dict ''2.0'' = Some obj)
      \<and> Dereference x obj = Inr PDFNil"
  then have "DereferenceDict x obj = Inr None"
    by (simp add: DereferenceDict_def)
  with b show "validateOPIVersionDict x dict = Inr ()"
    using validateOPIVersionDict_13 [of dict obj x] validateOPIVersionDict_20 [of dict obj x]
    by auto
next
  assume "Dereference x obj = Inr PDFNil"
  then show "validateAlternates rec x (pre @ obj # post) = validateAlternates rec x (pre @ post)"
    by (rule validateAlternates_skips_null)
qed

theorem null_entries_accepted_witness:
  "validateReferenceDict plainEnv
     [(''F'', PDFStringLiteral ''a.pdf''), (''Page'', PDFIndirectRef 9 0)] = Inr ()
   \<and> validateOPIVersionDict plainEnv [(''1.3'', PDFIndirectRef 9 0)] = Inr ()
   \<and> validateOPIVersionDict plainEnv [(''2.0'', PDFNil)] = Inr ()
   \<and> validateAlternates (validateImageStreamDict 1 plainEnv) plainEnv
       [PDFStreamDict plainImage [], PDFIndirectRef 9 0]
       = validateAlternates (validateImageStreamDict 1 plainEnv) plainEnv
           [PDFStreamDict plainImage []]"
proof -
  let ?r = "[(''F'', PDFStringLiteral ''a.pdf''), (''Page'', PDFIndirectRef 9 0)]"
  have n: "Dereference plainEnv (PDFIndirectRef 9 0) = Inr PDFNil"
    "Dereference plainEnv PDFNil = Inr PDFNil"
    by (simp_all add: Dereference_def plainEnv_def tableEnv_def)
  have f: "passes (validateFileSpecEntry plainEnv ?r ''refDict'' ''F'' REQUIRED V10)"
    by (simp add: passes_def prim_defs plainEnv_def tableEnv_def)
  have i: "passes (validateStringArrayEntry plainEnv ?r ''refDict'' ''ID'' OPTIONAL V10
                     (\<lambda>arr. length arr = 2))"
    by (simp add: passes_def prim_defs plainEnv_def tableEnv_def)
  have 1: "validateReferenceDict plainEnv ?r = Inr ()"
    using null_entries_accepted [where x = plainEnv and dict = ?r and obj = "PDFIndirectRef 9 0"]
      f i n
    by (simp add: Find_def)
  have 2: "validateOPIVersionDict plainEnv [(''1.3'', PDFIndirectRef 9 0)] = Inr ()"
    using null_entries_accepted
      [where x = plainEnv and dict = "[(''1.3'', PDFIndirectRef 9 0)]"
         and obj = "PDFIndirectRef 9 0"] n
    by (simp add: Find_def Len_def)
  have 3: "validateOPIVersionDict plainEnv [(''2.0'', PDFNil)] = Inr ()"
    using null_entries_accepted
      [where x = plainEnv and dict = "[(''2.0'', PDFNil)]" and obj = PDFNil] n
    by (simp add: Find_def Len_def)
  have 4: "validateAlternates (validateImageStreamDict 1 plainEnv) plainEnv
       ([PDFStreamDict plainImage []] @ PDFIndirectRef 9 0 # [])
       = validateAlternates (validateImageStreamDict 1 plainEnv) plainEnv
           ([PDFStreamDict plainImage []] @ [])"
    using null_entries_accepted
      [where x = plainEnv and obj = "PDFIndirectRef 9 0"
         and pre = "[PDFStreamDict plainImage []]" and post = "[]"
         and rec = "validateImageStreamDict 1 plainEnv"] n
    by blast
  from 1 2 3 4 show ?thesis by simp
qed

end
